theory Spec2Isabelle
  imports Main "HOL-Library.Word" "HOL-Library.Monad_Syntax"
begin

unbundle bit_operations_syntax

section \<open>The LNK forensic parser of app/analyzers/static/lnk\_parser.py\<close>

text \<open>
  A shallow embedding of class \<open>LnkForensics\<close>. The object is a record that every method
  takes and returns; the read offset \<open>index\<close> is a Python integer, so an \<open>int\<close>, and
  may become negative (a signed \<open>LinkInfoSize\<close> is added to it). A primitive that can raise
  (\<open>struct.unpack\<close> on a slice of the wrong length, \<open>indata[i]\<close> out of range) returns
  an \<open>option\<close>, \<open>None\<close> being the exception; every \<open>try\<close>/\<open>except\<close> of the source is
  the \<open>case\<close> that handles that \<open>None\<close>. Python names that begin with an underscore lose
  it here (\<open>_parse\<close> is \<open>parse\<close>, \<open>_read_string_data\<close> is \<open>read_string_data\<close>).
\<close>

subsection \<open>Bytes, slices, struct.unpack\<close>

type_synonym byte = "8 word"

text \<open>Python's \<open>xs[i:j]\<close>: a negative bound counts from the end, every bound is clamped to
  the sequence, and an empty range gives the empty sequence. A slice never raises.\<close>

definition norm_index :: "nat \<Rightarrow> int \<Rightarrow> nat" where
  "norm_index n i = (if i < 0 then nat (max (i + int n) 0) else min (nat i) n)"

definition py_slice :: "'a list \<Rightarrow> int \<Rightarrow> int \<Rightarrow> 'a list" where
  "py_slice xs i j =
     (let a = norm_index (length xs) i; b = norm_index (length xs) j
      in take (b - a) (drop a xs))"

text \<open>Python's \<open>xs[i]\<close>: \<open>None\<close> is the IndexError.\<close>

definition py_index :: "'a list \<Rightarrow> int \<Rightarrow> 'a option" where
  "py_index xs i =
     (let n = int (length xs); j = (if i < 0 then n + i else i)
      in if 0 \<le> j \<and> j < n then Some (xs ! nat j) else None)"

text \<open>The unsigned little-endian value of a byte string, and its reading as a two's
  complement number of \<open>w\<close> bits.\<close>

fun le_int :: "byte list \<Rightarrow> int" where
  "le_int [] = 0"
| "le_int (b # bs) = uint b + 256 * le_int bs"

definition to_signed :: "nat \<Rightarrow> int \<Rightarrow> int" where
  "to_signed w v = (if v < 2 ^ (w - 1) then v else v - 2 ^ w)"

text \<open>\<open>struct.unpack('<H' | '<I' | '<i' | '<q', bs)[0]\<close>: little-endian, and a
  \<open>struct.error\<close> (here \<open>None\<close>) unless \<open>bs\<close> has exactly the format's size.\<close>

definition unpack_H :: "byte list \<Rightarrow> int option" where
  "unpack_H bs = (if length bs = 2 then Some (le_int bs) else None)"

definition unpack_I :: "byte list \<Rightarrow> int option" where
  "unpack_I bs = (if length bs = 4 then Some (le_int bs) else None)"

definition unpack_i :: "byte list \<Rightarrow> int option" where
  "unpack_i bs = (if length bs = 4 then Some (to_signed 32 (le_int bs)) else None)"

definition unpack_q :: "byte list \<Rightarrow> int option" where
  "unpack_q bs = (if length bs = 8 then Some (to_signed 64 (le_int bs)) else None)"

subsection \<open>Text: hex, chr, strip\<close>

definition hex_digit :: "int \<Rightarrow> char" where
  "hex_digit d = ''0123456789abcdef'' ! nat d"

text \<open>The hexadecimal digits of a number that is not negative.\<close>

function hex_digits :: "int \<Rightarrow> string" where
  "hex_digits n =
     (if n < 16 then [hex_digit n] else hex_digits (n div 16) @ [hex_digit (n mod 16)])"
  by pat_completeness auto
termination
  by (relation "measure (\<lambda>n. nat n)") auto

declare hex_digits.simps [simp del]

text \<open>The builtin \<open>hex(i)\<close> and \<open>bytes.hex()\<close>.\<close>

definition py_hex :: "int \<Rightarrow> string" where
  "py_hex i = (if i < 0 then ''-0x'' @ hex_digits (- i) else ''0x'' @ hex_digits i)"

definition bytes_hex :: "byte list \<Rightarrow> string" where
  "bytes_hex bs = concat (map (\<lambda>b. [hex_digit (uint b div 16), hex_digit (uint b mod 16)]) bs)"

definition upper_hex :: "char \<Rightarrow> char" where
  "upper_hex c = (if c \<in> set ''abcdef'' then char_of (of_char c - (32::nat)) else c)"

text \<open>The format \<open>f"0x{v:08X}"\<close>: upper-case digits, zero-filled to eight characters with
  the sign, if any, counted and written first.\<close>

definition fmt_08X :: "int \<Rightarrow> string" where
  "fmt_08X v =
     (let ds = map upper_hex (hex_digits \<bar>v\<bar>)
      in ''0x'' @ (if v < 0 then ''-'' @ replicate (7 - length ds) (CHR ''0'') @ ds
                   else replicate (8 - length ds) (CHR ''0'') @ ds))"

text \<open>\<open>_clean_line\<close>: the characters of the bytes \<open>i\<close> with \<open>128 > i > 20\<close>.\<close>

definition clean_line :: "byte list \<Rightarrow> string" where
  "clean_line rstring =
     map (\<lambda>i. char_of (uint i)) (filter (\<lambda>i. 128 > uint i \<and> uint i > 20) rstring)"

text \<open>\<open>bytes.replace(b'\x00', b'')\<close>.\<close>

definition drop_nuls :: "byte list \<Rightarrow> byte list" where
  "drop_nuls bs = filter (\<lambda>b. b \<noteq> 0) bs"

text \<open>\<open>str.strip()\<close>: the characters below 256 that \<open>str.isspace\<close> accepts are
  9 to 13, 28 to 32, 133 and 160.\<close>

definition isspace :: "char \<Rightarrow> bool" where
  "isspace c = ((of_char c :: nat) \<in> set [9, 10, 11, 12, 13, 28, 29, 30, 31, 32, 133, 160])"

definition strip :: "string \<Rightarrow> string" where
  "strip s = rev (dropWhile isspace (rev (dropWhile isspace s)))"

subsection \<open>The object\<close>

text \<open>A value of one of the dictionaries the accessors return.\<close>

datatype hash_alg = MD5 | SHA1 | SHA256

datatype json =
    JNone
  | JInt int
  | JStr string
  | JDigest hash_alg "byte list"
  | JList "json list"
  | JDict "(string \<times> json) list"

text \<open>\<open>JDigest a bs\<close> stands for \<open>hashlib.a(bs).hexdigest()\<close>; the digest algorithms are
  the library's and are left uninterpreted.\<close>

text \<open>\<open>self.lnk_header\<close>: a key is present once it has been assigned.\<close>

record lnk_header =
  header_size :: "int option"
  guid :: "string option"
  rlinkFlags :: "int option"
  rfileFlags :: "int option"
  creation_time :: "int option"
  accessed_time :: "int option"
  modified_time :: "int option"
  file_size :: "int option"
  icon_index :: "int option"
  windowstyle :: "json option"
  hotkey :: "int option"
  reserved0 :: "int option"
  reserved1 :: "int option"
  reserved2 :: "int option"

text \<open>\<open>self.loc_information\<close>: the seven header fields are assigned together (one dict
  literal), the other three keys afterwards, each on its own.\<close>

record link_info =
  LinkInfoSize :: int
  LinkInfoHeaderSize :: int
  LinkInfoFlags :: int
  VolumeIDOffset :: int
  LocalBasePathOffset :: int
  CommonNetworkRelativeLinkOffset :: int
  CommonPathSuffixOffset :: int

record volume_id =
  VolumeIDSize :: int
  rDriveType :: int
  DriveSerialNumber :: string
  VolumeLabelOffset :: int
  DriveType :: "string option"
  VolumeLabel :: "string option"

record common_network =
  CommonNetworkRelativeLinkSize :: int
  CommonNetworkRelativeLinkFlags :: int
  NetNameOffset :: int
  DeviceNameOffset :: int
  NetworkProviderType :: int

record loc_information =
  LinkInfo :: "link_info option"
  LocalBasePath :: "string option"
  VolumeIDAndLocalBasePath :: "volume_id option"
  CommonNetworkRelativeLinkAndPathSuffix :: "common_network option"

text \<open>\<open>self.data\<close> and \<open>self.extraBlocks\<close>.\<close>

record string_data =
  description :: "string option"
  relativePath :: "string option"
  workingDirectory :: "string option"
  commandLineArguments :: "string option"
  iconLocation :: "string option"

record tracker_block =
  tracker_size :: int
  tracker_version :: int
  machine_identifier :: string
  droid_volume_identifier :: string
  droid_file_identifier :: string
  birth_droid_volume_identifier :: string
  birth_droid_file_identifier :: string

record environment_block =
  environment_size :: int
  variable_location :: string

record extra_blocks =
  DISTRIBUTED_LINK_TRACKER_BLOCK :: "tracker_block option"
  ENVIRONMENTAL_VARIABLES_LOCATION_BLOCK :: "environment_block option"

record lnk =
  file_path :: "string option"
  indata :: "byte list"
  parsed :: bool
  parse_error :: "string option"
  linkFlag :: "(string \<times> bool) list"
  fileFlag :: "(string \<times> bool) list"
  data :: string_data
  extraBlocks :: extra_blocks
  header :: lnk_header
  loc :: loc_information

text \<open>The only exception class the module raises to its callers.\<close>

datatype exn = LnkForensicsError string

definition empty_header :: lnk_header where
  "empty_header =
     \<lparr>header_size = None, guid = None, rlinkFlags = None, rfileFlags = None,
      creation_time = None, accessed_time = None, modified_time = None, file_size = None,
      icon_index = None, windowstyle = None, hotkey = None, reserved0 = None,
      reserved1 = None, reserved2 = None\<rparr>"

definition empty_loc :: loc_information where
  "empty_loc =
     \<lparr>LinkInfo = None, LocalBasePath = None, VolumeIDAndLocalBasePath = None,
      CommonNetworkRelativeLinkAndPathSuffix = None\<rparr>"

definition empty_data :: string_data where
  "empty_data =
     \<lparr>description = None, relativePath = None, workingDirectory = None,
      commandLineArguments = None, iconLocation = None\<rparr>"

definition empty_blocks :: extra_blocks where
  "empty_blocks =
     \<lparr>DISTRIBUTED_LINK_TRACKER_BLOCK = None, ENVIRONMENTAL_VARIABLES_LOCATION_BLOCK = None\<rparr>"

text \<open>The object as \<open>__init__\<close> has it once the input is loaded and before \<open>_parse\<close>
  runs. \<open>self.indata\<close> is \<open>None\<close> until then; nothing reads it earlier, and \<open>None\<close> and
  \<open>b''\<close> are both false where \<open>get_file_hashes\<close> tests it.\<close>

definition loaded :: "string option \<Rightarrow> byte list \<Rightarrow> lnk" where
  "loaded path bs =
     \<lparr>file_path = path, indata = bs, parsed = False, parse_error = None, linkFlag = [],
      fileFlag = [], data = empty_data, extraBlocks = empty_blocks, header = empty_header,
      loc = empty_loc\<rparr>"

definition DRIVE_TYPES :: "string list" where
  "DRIVE_TYPES =
     [''DRIVE_UNKNOWN'', ''DRIVE_NO_ROOT_DIR'', ''DRIVE_REMOVABLE'', ''DRIVE_FIXED'',
      ''DRIVE_REMOTE'', ''DRIVE_CDROM'', ''DRIVE_RAMDISK'']"

definition WINDOWSTYLES :: "string list" where
  "WINDOWSTYLES =
     [''SW_HIDE'', ''SW_NORMAL'', ''SW_SHOWMINIMIZED'', ''SW_MAXIMIZE'', ''SW_SHOWNOACTIVATE'',
      ''SW_SHOW'', ''SW_MINIMIZE'', ''SW_SHOWMINNOACTIVE'', ''SW_SHOWNA'', ''SW_RESTORE'',
      ''SW_SHOWDEFAULT'']"

subsection \<open>The fixed header\<close>

text \<open>The thirteen fields \<open>_parse_lnk_header\<close> assigns after \<open>header_size\<close>, in the
  source's order; \<open>h\<close> is \<open>self.indata[:76]\<close>.\<close>

definition decode_header_fields :: "byte list \<Rightarrow> lnk_header \<Rightarrow> lnk_header option" where
  "decode_header_fields h hd0 =
     do {
       lf \<leftarrow> unpack_i (py_slice h 20 24);
       ff \<leftarrow> unpack_i (py_slice h 24 28);
       ct \<leftarrow> unpack_q (py_slice h 28 36);
       at \<leftarrow> unpack_q (py_slice h 36 44);
       mt \<leftarrow> unpack_q (py_slice h 44 52);
       fs \<leftarrow> unpack_i (py_slice h 52 56);
       ii \<leftarrow> unpack_I (py_slice h 56 60);
       windowstyle_val \<leftarrow> unpack_i (py_slice h 60 64);
       hk \<leftarrow> unpack_H (py_slice h 64 66);
       r0 \<leftarrow> unpack_H (py_slice h 66 68);
       r1 \<leftarrow> unpack_i (py_slice h 68 72);
       r2 \<leftarrow> unpack_i (py_slice h 72 76);
       Some (hd0\<lparr>guid := Some (bytes_hex (py_slice h 4 20)),
                 rlinkFlags := Some lf, rfileFlags := Some ff,
                 creation_time := Some ct, accessed_time := Some at, modified_time := Some mt,
                 file_size := Some fs, icon_index := Some ii,
                 windowstyle := Some (if 0 \<le> windowstyle_val \<and> windowstyle_val < int (length WINDOWSTYLES)
                                      then JStr (WINDOWSTYLES ! nat windowstyle_val)
                                      else JInt windowstyle_val),
                 hotkey := Some hk, reserved0 := Some r0, reserved1 := Some r1,
                 reserved2 := Some r2\<rparr>)
     }"

text \<open>\<open>_parse_lnk_header\<close>: the object and the boolean it returns. The handler of the
  \<open>try\<close> stores \<open>"Header parsing failed: "\<close> followed by the text of the exception; the
  text of a \<open>struct.error\<close> is the library's and is written \<open>struct.error\<close> here. The
  fields assigned before a failing \<open>unpack\<close> would stay assigned; \<open>header_unpack_total\<close>
  below shows that no \<open>unpack\<close> of the header fails on 76 bytes or more.\<close>

definition parse_lnk_header :: "lnk \<Rightarrow> lnk \<times> bool" where
  "parse_lnk_header st =
     (if length (indata st) < 76 then (st, False)
      else
        (case unpack_I (py_slice (indata st) 0 4) of
           None \<Rightarrow> (st\<lparr>parse_error := Some ''Header parsing failed: struct.error''\<rparr>, False)
         | Some hs \<Rightarrow>
             let st1 = st\<lparr>header := (header st)\<lparr>header_size := Some hs\<rparr>\<rparr>
             in if hs \<noteq> 76 then (st1, False)
                else
                  (case decode_header_fields (py_slice (indata st) 0 76) (header st1) of
                     None \<Rightarrow> (st1\<lparr>parse_error := Some ''Header parsing failed: struct.error''\<rparr>, False)
                   | Some h \<Rightarrow> (st1\<lparr>header := h\<rparr>, True))))"

subsection \<open>The two flag words\<close>

text \<open>Python's \<open>bool(flags & mask)\<close> on a signed integer: \<open>&\<close> works on the two's
  complement, as \<open>AND\<close> on \<open>int\<close> does.\<close>

definition decode_link_flags :: "int \<Rightarrow> (string \<times> bool) list" where
  "decode_link_flags flags =
     [(''HasTargetIDList'', flags AND 0x00000001 \<noteq> 0),
      (''HasLinkInfo'', flags AND 0x00000002 \<noteq> 0),
      (''HasName'', flags AND 0x00000004 \<noteq> 0),
      (''HasRelativePath'', flags AND 0x00000008 \<noteq> 0),
      (''HasWorkingDir'', flags AND 0x00000010 \<noteq> 0),
      (''HasArguments'', flags AND 0x00000020 \<noteq> 0),
      (''HasIconLocation'', flags AND 0x00000040 \<noteq> 0),
      (''IsUnicode'', flags AND 0x00000080 \<noteq> 0),
      (''ForceNoLinkInfo'', flags AND 0x00000100 \<noteq> 0),
      (''HasExpString'', flags AND 0x00000200 \<noteq> 0),
      (''RunInSeparateProcess'', flags AND 0x00000400 \<noteq> 0),
      (''HasDarwinID'', flags AND 0x00001000 \<noteq> 0),
      (''RunAsUser'', flags AND 0x00002000 \<noteq> 0),
      (''HasExpIcon'', flags AND 0x00004000 \<noteq> 0),
      (''NoPidlAlias'', flags AND 0x00008000 \<noteq> 0),
      (''RunWithShimLayer'', flags AND 0x00020000 \<noteq> 0),
      (''ForceNoLinkTrack'', flags AND 0x00040000 \<noteq> 0),
      (''EnableTargetMetadata'', flags AND 0x00080000 \<noteq> 0),
      (''DisableLinkPathTracking'', flags AND 0x00100000 \<noteq> 0),
      (''DisableKnownFolderTracking'', flags AND 0x00200000 \<noteq> 0),
      (''DisableKnownFolderAlias'', flags AND 0x00400000 \<noteq> 0),
      (''AllowLinkToLink'', flags AND 0x00800000 \<noteq> 0),
      (''UnaliasOnSave'', flags AND 0x01000000 \<noteq> 0),
      (''PreferEnvironmentPath'', flags AND 0x02000000 \<noteq> 0),
      (''KeepLocalIDListForUNCTarget'', flags AND 0x04000000 \<noteq> 0)]"

definition decode_file_flags :: "int \<Rightarrow> (string \<times> bool) list" where
  "decode_file_flags flags =
     [(''FILE_ATTRIBUTE_READONLY'', flags AND 0x00000001 \<noteq> 0),
      (''FILE_ATTRIBUTE_HIDDEN'', flags AND 0x00000002 \<noteq> 0),
      (''FILE_ATTRIBUTE_SYSTEM'', flags AND 0x00000004 \<noteq> 0),
      (''FILE_ATTRIBUTE_DIRECTORY'', flags AND 0x00000010 \<noteq> 0),
      (''FILE_ATTRIBUTE_ARCHIVE'', flags AND 0x00000020 \<noteq> 0),
      (''FILE_ATTRIBUTE_DEVICE'', flags AND 0x00000040 \<noteq> 0),
      (''FILE_ATTRIBUTE_NORMAL'', flags AND 0x00000080 \<noteq> 0),
      (''FILE_ATTRIBUTE_TEMPORARY'', flags AND 0x00000100 \<noteq> 0),
      (''FILE_ATTRIBUTE_SPARSE_FILE'', flags AND 0x00000200 \<noteq> 0),
      (''FILE_ATTRIBUTE_REPARSE_POINT'', flags AND 0x00000400 \<noteq> 0),
      (''FILE_ATTRIBUTE_COMPRESSED'', flags AND 0x00000800 \<noteq> 0),
      (''FILE_ATTRIBUTE_OFFLINE'', flags AND 0x00001000 \<noteq> 0),
      (''FILE_ATTRIBUTE_NOT_CONTENT_INDEXED'', flags AND 0x00002000 \<noteq> 0),
      (''FILE_ATTRIBUTE_ENCRYPTED'', flags AND 0x00004000 \<noteq> 0),
      (''FILE_ATTRIBUTE_VIRTUAL'', flags AND 0x00010000 \<noteq> 0)]"

text \<open>\<open>_parse_link_flags\<close> and \<open>_parse_file_flags\<close> read the raw word from the header
  dictionary; \<open>None\<close> is the KeyError of a missing key.\<close>

definition parse_link_flags :: "lnk \<Rightarrow> lnk option" where
  "parse_link_flags st =
     (case rlinkFlags (header st) of
        None \<Rightarrow> None
      | Some flags \<Rightarrow> Some (st\<lparr>linkFlag := decode_link_flags flags\<rparr>))"

definition parse_file_flags :: "lnk \<Rightarrow> lnk option" where
  "parse_file_flags st =
     (case rfileFlags (header st) of
        None \<Rightarrow> None
      | Some flags \<Rightarrow> Some (st\<lparr>fileFlag := decode_file_flags flags\<rparr>))"

text \<open>\<open>flags_dict.get(name)\<close>, false when the key is missing; \<open>self.linkFlag[name]\<close> is
  the same value whenever the key is present, and \<open>_parse\<close> reads \<open>self.linkFlag\<close> only
  after \<open>_parse_link_flags\<close> has stored all twenty-five keys.\<close>

definition flag_get :: "(string \<times> bool) list \<Rightarrow> string \<Rightarrow> bool" where
  "flag_get flags_dict name = (case map_of flags_dict name of Some b \<Rightarrow> b | None \<Rightarrow> False)"

definition get_enabled_flags :: "(string \<times> bool) list \<Rightarrow> string list" where
  "get_enabled_flags flags_dict = map fst (filter snd flags_dict)"

subsection \<open>The two string readers\<close>

text \<open>\<open>_read_string\<close>: the loop stops at the end of the buffer or at a zero byte; a
  negative index reads from the end, and one below \<open>-len\<close> raises (\<open>None\<close>).\<close>

function read_string_loop :: "byte list \<Rightarrow> int \<Rightarrow> string \<Rightarrow> string option" where
  "read_string_loop d index result =
     (if index < int (length d) then
        (case py_index d index of
           None \<Rightarrow> None
         | Some b \<Rightarrow>
             if b \<noteq> 0 then read_string_loop d (index + 1) (result @ [char_of (uint b)])
             else Some result)
      else Some result)"
  by pat_completeness auto
termination
  by (relation "measure (\<lambda>(d, index, result). nat (int (length d) - index))") auto

declare read_string_loop.simps [simp del]

definition read_string :: "byte list \<Rightarrow> int \<Rightarrow> string option" where
  "read_string d index = read_string_loop d index []"

text \<open>\<open>_read_string_data\<close>: the new index and the string. The \<open>try\<close> catches the
  \<open>struct.error\<close> of a length prefix that cannot be read.\<close>

definition read_string_data :: "byte list \<Rightarrow> int \<Rightarrow> int \<Rightarrow> int \<times> string" where
  "read_string_data d index u_mult =
     (if index + 2 > int (length d) then (index, [])
      else
        (case unpack_H (py_slice d index (index + 2)) of
           None \<Rightarrow> (index + 2, [])
         | Some n \<Rightarrow>
             let string_size = n * u_mult
             in if index + 2 + string_size > int (length d) then (index + 2, [])
                else (index + string_size + 2,
                      clean_line (drop_nuls (py_slice d (index + 2) (index + 2 + string_size))))))"

subsection \<open>The LinkInfo region\<close>

text \<open>The dict literal of the seven header fields: it is stored only if all seven
  \<open>unpack\<close> calls return.\<close>

definition read_link_info :: "byte list \<Rightarrow> int \<Rightarrow> link_info option" where
  "read_link_info d index =
     do {
       a \<leftarrow> unpack_i (py_slice d index (index + 4));
       b \<leftarrow> unpack_i (py_slice d (index + 4) (index + 8));
       c \<leftarrow> unpack_i (py_slice d (index + 8) (index + 12));
       e \<leftarrow> unpack_i (py_slice d (index + 12) (index + 16));
       f \<leftarrow> unpack_i (py_slice d (index + 16) (index + 20));
       g \<leftarrow> unpack_i (py_slice d (index + 20) (index + 24));
       h \<leftarrow> unpack_i (py_slice d (index + 24) (index + 28));
       Some \<lparr>LinkInfoSize = a, LinkInfoHeaderSize = b, LinkInfoFlags = c, VolumeIDOffset = e,
             LocalBasePathOffset = f, CommonNetworkRelativeLinkOffset = g,
             CommonPathSuffixOffset = h\<rparr>
     }"

definition read_volume_id :: "byte list \<Rightarrow> int \<Rightarrow> volume_id option" where
  "read_volume_id d local_index =
     do {
       a \<leftarrow> unpack_i (py_slice d (local_index + 0) (local_index + 4));
       b \<leftarrow> unpack_i (py_slice d (local_index + 4) (local_index + 8));
       c \<leftarrow> unpack_i (py_slice d (local_index + 8) (local_index + 12));
       e \<leftarrow> unpack_i (py_slice d (local_index + 12) (local_index + 16));
       Some \<lparr>VolumeIDSize = a, rDriveType = b, DriveSerialNumber = py_hex c,
             VolumeLabelOffset = e, DriveType = None, VolumeLabel = None\<rparr>
     }"

definition read_common_network :: "byte list \<Rightarrow> int \<Rightarrow> common_network option" where
  "read_common_network d local_index =
     do {
       a \<leftarrow> unpack_i (py_slice d (local_index + 0) (local_index + 4));
       b \<leftarrow> unpack_i (py_slice d (local_index + 4) (local_index + 8));
       c \<leftarrow> unpack_i (py_slice d (local_index + 8) (local_index + 12));
       e \<leftarrow> unpack_i (py_slice d (local_index + 12) (local_index + 16));
       f \<leftarrow> unpack_i (py_slice d (local_index + 16) (local_index + 20));
       Some \<lparr>CommonNetworkRelativeLinkSize = a, CommonNetworkRelativeLinkFlags = b,
             NetNameOffset = c, DeviceNameOffset = e, NetworkProviderType = f\<rparr>
     }"

text \<open>"Add drive type string" and "Parse volume label if present": neither can raise.\<close>

definition add_drive_type :: "volume_id \<Rightarrow> volume_id" where
  "add_drive_type v =
     (let drive_type = rDriveType v
      in if 0 \<le> drive_type \<and> drive_type < int (length DRIVE_TYPES)
         then v\<lparr>DriveType := Some (DRIVE_TYPES ! nat drive_type)\<rparr> else v)"

definition add_volume_label :: "byte list \<Rightarrow> int \<Rightarrow> int \<Rightarrow> volume_id \<Rightarrow> volume_id" where
  "add_volume_label d index volume_id_offset v =
     (if VolumeLabelOffset v \<noteq> 20 then
        (let vol_offset = VolumeLabelOffset v;
             vol_size = VolumeIDSize v;
             len = vol_size - vol_offset;
             label_index = index + volume_id_offset + vol_offset
         in if label_index + len \<le> int (length d)
            then v\<lparr>VolumeLabel :=
                     Some (clean_line (drop_nuls (py_slice d label_index (label_index + len))))\<rparr>
            else v)
      else v)"

text \<open>The body of the region's \<open>try\<close>: the object as the body leaves it, and the new
  index, or \<open>None\<close> when the body raised. What the body has stored before it raises stays
  stored.\<close>

definition link_info_body :: "lnk \<Rightarrow> int \<Rightarrow> lnk \<times> int option" where
  "link_info_body st index =
     (case read_link_info (indata st) index of
        None \<Rightarrow> (st, None)
      | Some li \<Rightarrow>
          let st1 = st\<lparr>loc := \<lparr>LinkInfo = Some li, LocalBasePath = None,
                                  VolumeIDAndLocalBasePath = None,
                                  CommonNetworkRelativeLinkAndPathSuffix = None\<rparr>\<rparr>
          in if LinkInfoFlags li AND 0x0001 \<noteq> 0 then
               (case (if LocalBasePathOffset li \<noteq> 0
                      then map_option (\<lambda>s. st1\<lparr>loc := (loc st1)\<lparr>LocalBasePath := Some s\<rparr>\<rparr>)
                             (read_string (indata st) (index + LocalBasePathOffset li))
                      else Some st1) of
                  None \<Rightarrow> (st1, None)
                | Some st2 \<Rightarrow>
                    (case read_volume_id (indata st) (index + VolumeIDOffset li) of
                       None \<Rightarrow> (st2, None)
                     | Some v \<Rightarrow>
                         (st2\<lparr>loc := (loc st2)\<lparr>VolumeIDAndLocalBasePath :=
                                 Some (add_volume_label (indata st) index (VolumeIDOffset li)
                                         (add_drive_type v))\<rparr>\<rparr>,
                          Some (index + LinkInfoSize li))))
             else if LinkInfoFlags li AND 0x0002 \<noteq> 0 then
               (case read_common_network (indata st)
                       (index + CommonNetworkRelativeLinkOffset li) of
                  None \<Rightarrow> (st1, None)
                | Some n \<Rightarrow>
                    (st1\<lparr>loc := (loc st1)\<lparr>CommonNetworkRelativeLinkAndPathSuffix := Some n\<rparr>\<rparr>,
                     Some (index + LinkInfoSize li)))
             else (st1, Some (index + LinkInfoSize li)))"

text \<open>The \<open>try\<close> with its \<open>except: pass\<close>: an exception leaves the index where it was.\<close>

definition parse_link_info :: "lnk \<Rightarrow> int \<Rightarrow> lnk \<times> int" where
  "parse_link_info st index =
     (case link_info_body st index of
        (st', None) \<Rightarrow> (st', index)
      | (st', Some index') \<Rightarrow> (st', index'))"

text \<open>"Skip LinkTargetIDList if present".\<close>

definition skip_target_id_list :: "byte list \<Rightarrow> int \<Rightarrow> int" where
  "skip_target_id_list d index =
     (case unpack_H (py_slice d index (index + 2)) of
        None \<Rightarrow> index
      | Some targets_size \<Rightarrow> index + (2 + targets_size))"

subsection \<open>The string section\<close>

text \<open>The five \<open>if\<close> statements of "Parse string data", in the source's order. Nothing in
  them raises (\<open>_read_string_data\<close> catches its own exception), so the \<open>except: pass\<close>
  around them has nothing to catch.\<close>

definition parse_string_data :: "lnk \<Rightarrow> int \<Rightarrow> lnk \<times> int" where
  "parse_string_data st index =
     (let d = indata st;
          u_mult = (if flag_get (linkFlag st) ''IsUnicode'' then 2 else 1);
          (i1, st1) =
            (if flag_get (linkFlag st) ''HasName''
             then (let (i, s) = read_string_data d index u_mult
                   in (i, st\<lparr>data := (data st)\<lparr>description := Some s\<rparr>\<rparr>))
             else (index, st));
          (i2, st2) =
            (if flag_get (linkFlag st) ''HasRelativePath''
             then (let (i, s) = read_string_data d i1 u_mult
                   in (i, st1\<lparr>data := (data st1)\<lparr>relativePath := Some s\<rparr>\<rparr>))
             else (i1, st1));
          (i3, st3) =
            (if flag_get (linkFlag st) ''HasWorkingDir''
             then (let (i, s) = read_string_data d i2 u_mult
                   in (i, st2\<lparr>data := (data st2)\<lparr>workingDirectory := Some s\<rparr>\<rparr>))
             else (i2, st2));
          (i4, st4) =
            (if flag_get (linkFlag st) ''HasArguments''
             then (let (i, s) = read_string_data d i3 u_mult
                   in (i, st3\<lparr>data := (data st3)\<lparr>commandLineArguments := Some s\<rparr>\<rparr>))
             else (i3, st3));
          (i5, st5) =
            (if flag_get (linkFlag st) ''HasIconLocation''
             then (let (i, s) = read_string_data d i4 u_mult
                   in (i, st4\<lparr>data := (data st4)\<lparr>iconLocation := Some s\<rparr>\<rparr>))
             else (i4, st4))
      in (st5, i5))"

subsection \<open>The extra blocks\<close>

text \<open>The two block decoders store their dictionary only if every \<open>unpack\<close> of its
  literal returns; their own \<open>except: pass\<close> drops the block otherwise.\<close>

definition parse_distributed_tracker_block ::
  "byte list \<Rightarrow> extra_blocks \<Rightarrow> int \<Rightarrow> int \<Rightarrow> extra_blocks" where
  "parse_distributed_tracker_block d eb index sz =
     (case do {
             a \<leftarrow> unpack_I (py_slice d (index + 8) (index + 12));
             b \<leftarrow> unpack_I (py_slice d (index + 12) (index + 16));
             Some \<lparr>tracker_size = a, tracker_version = b,
                   machine_identifier = clean_line (py_slice d (index + 16) (index + 32)),
                   droid_volume_identifier = bytes_hex (py_slice d (index + 32) (index + 48)),
                   droid_file_identifier = bytes_hex (py_slice d (index + 48) (index + 64)),
                   birth_droid_volume_identifier = bytes_hex (py_slice d (index + 64) (index + 80)),
                   birth_droid_file_identifier = bytes_hex (py_slice d (index + 80) (index + 96))\<rparr>
           } of
        None \<Rightarrow> eb
      | Some t \<Rightarrow> eb\<lparr>DISTRIBUTED_LINK_TRACKER_BLOCK := Some t\<rparr>)"

definition parse_environment_block ::
  "byte list \<Rightarrow> extra_blocks \<Rightarrow> int \<Rightarrow> int \<Rightarrow> extra_blocks" where
  "parse_environment_block d eb index sz =
     eb\<lparr>ENVIRONMENTAL_VARIABLES_LOCATION_BLOCK :=
          Some \<lparr>environment_size = sz,
                variable_location = clean_line (py_slice d (index + 8) (index + 8 + sz))\<rparr>\<rparr>"

text \<open>The dispatch on \<open>sig\<close>, the text \<open>str(hex(...))[2:]\<close> of the signature, through the
  dictionary \<open>extra_sigs\<close>.\<close>

definition dispatch_block :: "byte list \<Rightarrow> extra_blocks \<Rightarrow> string \<Rightarrow> int \<Rightarrow> int \<Rightarrow> extra_blocks" where
  "dispatch_block d eb sig index sz =
     (if sig = ''a0000001'' then parse_environment_block d eb index sz
      else if sig = ''a0000003'' then parse_distributed_tracker_block d eb index sz
      else eb)"

text \<open>The \<open>while\<close> loop of "Parse extra blocks": the blocks found and the final index.
  Both \<open>break\<close>s (a size below 4, an exception) and the loop condition end the walk.\<close>

function walk_extra_blocks :: "byte list \<Rightarrow> extra_blocks \<Rightarrow> int \<Rightarrow> extra_blocks \<times> int" where
  "walk_extra_blocks d eb index =
     (if index \<le> int (length d) - 10 then
        (case unpack_I (py_slice d index (index + 4)) of
           None \<Rightarrow> (eb, index)
         | Some sz \<Rightarrow>
             if sz < 4 then (eb, index)
             else
               (case unpack_I (py_slice d (index + 4) (index + 8)) of
                  None \<Rightarrow> (eb, index)
                | Some sg \<Rightarrow>
                    walk_extra_blocks d (dispatch_block d eb (drop 2 (py_hex sg)) index sz)
                      (index + sz)))
      else (eb, index))"
  by pat_completeness auto
termination
  by (relation "measure (\<lambda>(d, eb, index). nat (int (length d) - 9 - index))") auto

declare walk_extra_blocks.simps [simp del]

subsection \<open>The parse and the constructor\<close>

text \<open>The handler at the end of \<open>_parse\<close>: it stores the text of the exception and raises
  \<open>LnkForensicsError\<close>.\<close>

definition parsing_failed :: "lnk \<Rightarrow> string \<Rightarrow> lnk \<times> exn option" where
  "parsing_failed st e =
     (st\<lparr>parse_error := Some e\<rparr>, Some (LnkForensicsError (''Parsing failed: '' @ e)))"

text \<open>\<open>str(KeyError(k))\<close> is the key in single quotes.\<close>

definition key_error :: "string \<Rightarrow> string" where
  "key_error k = [CHR 0x27] @ k @ [CHR 0x27]"

text \<open>The part of \<open>_parse\<close> that follows \<open>index = self.lnk_header['header_size']\<close>:
  the four regions, each with its own \<open>try\<close>, then \<open>self.parsed = True\<close>. No exception
  leaves a region.\<close>

definition parse_regions :: "lnk \<Rightarrow> int \<Rightarrow> lnk" where
  "parse_regions st index0 =
     (let index1 =
            (if flag_get (linkFlag st) ''HasTargetIDList''
             then skip_target_id_list (indata st) index0 else index0);
          (st4, index2) =
            (if flag_get (linkFlag st) ''HasLinkInfo'' \<and> \<not> flag_get (linkFlag st) ''ForceNoLinkInfo''
             then parse_link_info st index1 else (st, index1));
          (st5, index3) = parse_string_data st4 index2;
          (eb, index4) = walk_extra_blocks (indata st5) (extraBlocks st5) index3
      in st5\<lparr>extraBlocks := eb, parsed := True\<rparr>)"

text \<open>\<open>_parse\<close>: the object it leaves, and the exception it raises, if any. The three
  lookups in the header dictionary are the only places after the header check where an
  exception could reach the outer handler.\<close>

definition parse :: "lnk \<Rightarrow> lnk \<times> exn option" where
  "parse st =
     (case parse_lnk_header st of
        (st1, False) \<Rightarrow>
          parsing_failed st1
            (''Invalid LNK header: '' @ (case parse_error st1 of None \<Rightarrow> ''None'' | Some e \<Rightarrow> e))
      | (st1, True) \<Rightarrow>
          (case parse_link_flags st1 of
             None \<Rightarrow> parsing_failed st1 (key_error ''rlinkFlags'')
           | Some st2 \<Rightarrow>
               (case parse_file_flags st2 of
                  None \<Rightarrow> parsing_failed st2 (key_error ''rfileFlags'')
                | Some st3 \<Rightarrow>
                    (case header_size (header st3) of
                       None \<Rightarrow> parsing_failed st3 (key_error ''header_size'')
                     | Some index0 \<Rightarrow> (parse_regions st3 index0, None)))))"

text \<open>\<open>__init__\<close>. \<open>open_read\<close> is the file system: the bytes of the file at a path, or
  the text of the error; a file handle is what its \<open>read()\<close> returns or raises. The three
  tests are truth tests: an empty path and an empty \<open>raw_data\<close> are false, a file handle
  is true. \<open>raw_data\<close> is \<open>bytes\<close> by its type, so the \<open>isinstance\<close> check of
  \<open>_load_from_data\<close> passes.\<close>

definition construct :: "lnk \<Rightarrow> exn + lnk" where
  "construct st = (case parse st of (st', None) \<Rightarrow> Inr st' | (st', Some e) \<Rightarrow> Inl e)"

definition init ::
  "(string \<Rightarrow> string + byte list) \<Rightarrow> string option \<Rightarrow> (string + byte list) option \<Rightarrow>
     byte list option \<Rightarrow> exn + lnk" where
  "init open_read path file_handle raw_data =
     (if path \<noteq> None \<and> path \<noteq> Some [] then
        (case open_read (the path) of
           Inl e \<Rightarrow> Inl (LnkForensicsError (''Failed to read file '' @ the path @ '': '' @ e))
         | Inr bs \<Rightarrow> construct (loaded path bs))
      else if file_handle \<noteq> None then
        (case the file_handle of
           Inl e \<Rightarrow> Inl (LnkForensicsError (''Failed to read from file handle: '' @ e))
         | Inr bs \<Rightarrow> construct (loaded path bs))
      else if raw_data \<noteq> None \<and> raw_data \<noteq> Some [] then
        construct (loaded path (the raw_data))
      else Inl (LnkForensicsError ''Must provide file_path, file_handle, or raw_data''))"

subsection \<open>The accessors\<close>

definition is_valid :: "lnk \<Rightarrow> bool" where
  "is_valid st = (parsed st \<and> parse_error st = None)"

definition get_error :: "lnk \<Rightarrow> string option" where
  "get_error st = parse_error st"

definition get_target_command :: "lnk \<Rightarrow> string" where
  "get_target_command st =
     (if \<not> parsed st then []
      else
        (let out0 = [];
             out1 = (if flag_get (linkFlag st) ''HasRelativePath'' \<and> relativePath (data st) \<noteq> None
                     then out0 @ the (relativePath (data st)) else out0);
             out2 = (if flag_get (linkFlag st) ''HasArguments'' \<and> commandLineArguments (data st) \<noteq> None
                     then out1 @ '' '' @ the (commandLineArguments (data st)) else out1)
         in strip out2))"

text \<open>\<open>_ms_time_to_unix_time\<close>. Its \<open>try\<close> body is one expression of the standard
  library, \<open>datetime.datetime.fromtimestamp(time / 10000000.0 - 11644473600).strftime(...)\<close>:
  a floating-point quotient, converted in the time zone and within the range of the host.
  The body is the parameter \<open>fromtimestamp_strftime\<close>, from the FILETIME to the text, or
  \<open>None\<close> when it raises; the bare \<open>except\<close> turns every exception into the sentinel.\<close>

definition ms_time_to_unix_time :: "(int \<Rightarrow> string option) \<Rightarrow> int \<Rightarrow> string" where
  "ms_time_to_unix_time fromtimestamp_strftime time =
     (case fromtimestamp_strftime time of Some s \<Rightarrow> s | None \<Rightarrow> ''Invalid timestamp'')"

definition get_or :: "'a option \<Rightarrow> 'a \<Rightarrow> 'a" where
  "get_or v dflt = (case v of Some x \<Rightarrow> x | None \<Rightarrow> dflt)"

definition get_timestamps :: "(int \<Rightarrow> string option) \<Rightarrow> lnk \<Rightarrow> json" where
  "get_timestamps clock st =
     (if \<not> parsed st then JDict []
      else JDict
        [(''creation_time'', JStr (ms_time_to_unix_time clock (get_or (creation_time (header st)) 0))),
         (''modified_time'', JStr (ms_time_to_unix_time clock (get_or (modified_time (header st)) 0))),
         (''accessed_time'', JStr (ms_time_to_unix_time clock (get_or (accessed_time (header st)) 0)))])"

definition get_machine_tracking :: "lnk \<Rightarrow> json" where
  "get_machine_tracking st =
     (if \<not> parsed st then JDict []
      else
        (let tracker = DISTRIBUTED_LINK_TRACKER_BLOCK (extraBlocks st)
         in JDict
           [(''machine_identifier'', JStr (get_or (map_option machine_identifier tracker) [])),
            (''droid_volume_identifier'', JStr (get_or (map_option droid_volume_identifier tracker) [])),
            (''droid_file_identifier'', JStr (get_or (map_option droid_file_identifier tracker) [])),
            (''birth_droid_volume_identifier'',
               JStr (get_or (map_option birth_droid_volume_identifier tracker) [])),
            (''birth_droid_file_identifier'',
               JStr (get_or (map_option birth_droid_file_identifier tracker) []))]))"

definition network_dict :: "common_network \<Rightarrow> json" where
  "network_dict n =
     JDict [(''CommonNetworkRelativeLinkSize'', JInt (CommonNetworkRelativeLinkSize n)),
            (''CommonNetworkRelativeLinkFlags'', JInt (CommonNetworkRelativeLinkFlags n)),
            (''NetNameOffset'', JInt (NetNameOffset n)),
            (''DeviceNameOffset'', JInt (DeviceNameOffset n)),
            (''NetworkProviderType'', JInt (NetworkProviderType n))]"

definition get_network_info :: "lnk \<Rightarrow> json" where
  "get_network_info st =
     (if \<not> parsed st then JDict []
      else get_or (map_option network_dict (CommonNetworkRelativeLinkAndPathSuffix (loc st)))
             (JDict []))"

text \<open>The comprehension at the end of \<open>get_volume_info\<close> keeps the entries whose value is
  true, that is the non-empty strings.\<close>

definition get_volume_info :: "lnk \<Rightarrow> json" where
  "get_volume_info st =
     (if \<not> parsed st then JDict []
      else
        (let vol_info = VolumeIDAndLocalBasePath (loc st);
             result =
               [(''drive_type'', get_or (Option.bind vol_info DriveType) []),
                (''drive_serial'', get_or (map_option DriveSerialNumber vol_info) []),
                (''volume_label'', get_or (Option.bind vol_info VolumeLabel) []),
                (''local_base_path'', get_or (LocalBasePath (loc st)) [])]
         in JDict (map (\<lambda>(k, v). (k, JStr v)) (filter (\<lambda>(k, v). v \<noteq> []) result))))"

definition get_file_hashes :: "lnk \<Rightarrow> json" where
  "get_file_hashes st =
     (if indata st = [] then JDict []
      else JDict [(''md5'', JDigest MD5 (indata st)),
                  (''sha1'', JDigest SHA1 (indata st)),
                  (''sha256'', JDigest SHA256 (indata st))])"

definition get_link_flags :: "lnk \<Rightarrow> json" where
  "get_link_flags st =
     (if \<not> parsed st then JDict []
      else JDict [(''raw_value'', JStr (fmt_08X (get_or (rlinkFlags (header st)) 0))),
                  (''enabled_flags'', JList (map JStr (get_enabled_flags (linkFlag st))))])"

definition get_file_attributes :: "lnk \<Rightarrow> json" where
  "get_file_attributes st =
     (if \<not> parsed st then JDict []
      else JDict [(''raw_value'', JStr (fmt_08X (get_or (rfileFlags (header st)) 0))),
                  (''enabled_attributes'', JList (map JStr (get_enabled_flags (fileFlag st))))])"

definition get_target_info :: "lnk \<Rightarrow> json" where
  "get_target_info st =
     (if \<not> parsed st then JDict []
      else JDict
        [(''target_command'', JStr (get_target_command st)),
         (''description'', JStr (get_or (description (data st)) [])),
         (''relative_path'', JStr (get_or (relativePath (data st)) [])),
         (''working_directory'', JStr (get_or (workingDirectory (data st)) [])),
         (''command_line_arguments'', JStr (get_or (commandLineArguments (data st)) [])),
         (''icon_location'', JStr (get_or (iconLocation (data st)) []))])"

definition entries :: "json \<Rightarrow> (string \<times> json) list" where
  "entries j = (case j of JDict kvs \<Rightarrow> kvs | _ \<Rightarrow> [])"

definition opt_int :: "int option \<Rightarrow> json" where
  "opt_int v = (case v of Some i \<Rightarrow> JInt i | None \<Rightarrow> JNone)"

definition opt_str :: "string option \<Rightarrow> json" where
  "opt_str v = (case v of Some s \<Rightarrow> JStr s | None \<Rightarrow> JNone)"

definition environment_dict :: "environment_block \<Rightarrow> json" where
  "environment_dict e =
     JDict [(''size'', JInt (environment_size e)), (''variable_location'', JStr (variable_location e))]"

text \<open>\<open>get_forensic_data\<close>; \<open>basename\<close> is \<open>os.path.basename\<close>. \<open>self.extraBlocks\<close> never
  holds a key other than the two decoded blocks, so the list \<open>extra_blocks\<close> is empty.\<close>

definition get_forensic_data :: "(string \<Rightarrow> string) \<Rightarrow> (int \<Rightarrow> string option) \<Rightarrow> lnk \<Rightarrow> json" where
  "get_forensic_data basename clock st =
     (if \<not> parsed st then JDict [(''error'', JStr (get_or (parse_error st) ''File not parsed''))]
      else JDict
        [(''file_info'',
            JDict ([(''filename'',
                       JStr (if file_path st \<noteq> None \<and> file_path st \<noteq> Some []
                             then basename (the (file_path st)) else ''unknown'')),
                    (''file_size_bytes'', JInt (int (length (indata st))))]
                   @ entries (get_file_hashes st))),
         (''lnk_header'',
            JDict ([(''header_size'', opt_int (header_size (header st))),
                    (''guid'', opt_str (guid (header st))),
                    (''target_file_size'', opt_int (file_size (header st))),
                    (''icon_index'', opt_int (icon_index (header st))),
                    (''window_style'', get_or (windowstyle (header st)) JNone),
                    (''hotkey'', opt_int (hotkey (header st)))]
                   @ entries (get_timestamps clock st))),
         (''link_flags'', get_link_flags st),
         (''file_attributes'', get_file_attributes st),
         (''target_info'', get_target_info st),
         (''volume_info'', get_volume_info st),
         (''network_info'', get_network_info st),
         (''machine_tracking'', get_machine_tracking st),
         (''environment_info'',
            get_or (map_option environment_dict
                      (ENVIRONMENTAL_VARIABLES_LOCATION_BLOCK (extraBlocks st))) (JDict [])),
         (''extra_blocks'', JList [])])"

subsection \<open>Inputs used below\<close>

text \<open>A 76-byte header whose link-flags word is \<open>0x0000002C\<close>; every other field is
  zero.\<close>

definition header_2C :: "byte list" where
  "header_2C =
     [0x4C, 0, 0, 0,
      0, 0, 0, 0, 0, 0, 0, 0, 0, 0, 0, 0, 0, 0, 0, 0,
      0x2C, 0, 0, 0,
      0, 0, 0, 0,
      0, 0, 0, 0, 0, 0, 0, 0, 0, 0, 0, 0, 0, 0, 0, 0, 0, 0, 0, 0, 0, 0, 0, 0,
      0, 0, 0, 0, 0, 0, 0, 0, 0, 0, 0, 0,
      0, 0, 0, 0, 0, 0, 0, 0, 0, 0, 0, 0]"



text \<open>A header with link flags \<open>0x0C\<close> (\<open>HasName\<close>, \<open>HasRelativePath\<close>), then a length
  prefix of 16 with only five bytes behind it: the bytes \<open>03 00\<close> and \<open>abc\<close>.\<close>

definition overlong_buf :: "byte list" where
  "overlong_buf =
     [0x4C, 0, 0, 0,
      0, 0, 0, 0, 0, 0, 0, 0, 0, 0, 0, 0, 0, 0, 0, 0,
      0x0C, 0, 0, 0,
      0, 0, 0, 0,
      0, 0, 0, 0, 0, 0, 0, 0, 0, 0, 0, 0, 0, 0, 0, 0, 0, 0, 0, 0, 0, 0, 0, 0,
      0, 0, 0, 0, 0, 0, 0, 0, 0, 0, 0, 0,
      0, 0, 0, 0, 0, 0, 0, 0, 0, 0, 0, 0,
      0x10, 0, 0x03, 0, 0x61, 0x62, 0x63]"

text \<open>A header with link flags \<open>0x02\<close> (\<open>HasLinkInfo\<close>) followed by a LinkInfo header whose
  flags word is zero: \<open>LinkInfoSize\<close> 28, \<open>LinkInfoHeaderSize\<close> 28, every offset zero.\<close>

definition linkinfo_neither :: "byte list" where
  "linkinfo_neither =
     [0x4C, 0, 0, 0,
      0, 0, 0, 0, 0, 0, 0, 0, 0, 0, 0, 0, 0, 0, 0, 0,
      0x02, 0, 0, 0,
      0, 0, 0, 0,
      0, 0, 0, 0, 0, 0, 0, 0, 0, 0, 0, 0, 0, 0, 0, 0, 0, 0, 0, 0, 0, 0, 0, 0,
      0, 0, 0, 0, 0, 0, 0, 0, 0, 0, 0, 0,
      0, 0, 0, 0, 0, 0, 0, 0, 0, 0, 0, 0,
      28, 0, 0, 0,  28, 0, 0, 0,  0, 0, 0, 0,  0, 0, 0, 0,
      0, 0, 0, 0,  0, 0, 0, 0,  0, 0, 0, 0]"

text \<open>The same header followed by a LinkInfo header with flags word 1 (volume information),
  \<open>LocalBasePathOffset\<close> 28 and \<open>VolumeIDOffset\<close> 1000, which points far outside the buffer,
  and by the zero-terminated string \<open>C:\<close> at offset 28 of the region.\<close>

definition linkinfo_broken :: "byte list" where
  "linkinfo_broken =
     [0x4C, 0, 0, 0,
      0, 0, 0, 0, 0, 0, 0, 0, 0, 0, 0, 0, 0, 0, 0, 0,
      0x02, 0, 0, 0,
      0, 0, 0, 0,
      0, 0, 0, 0, 0, 0, 0, 0, 0, 0, 0, 0, 0, 0, 0, 0, 0, 0, 0, 0, 0, 0, 0, 0,
      0, 0, 0, 0, 0, 0, 0, 0, 0, 0, 0, 0,
      0, 0, 0, 0, 0, 0, 0, 0, 0, 0, 0, 0,
      31, 0, 0, 0,  28, 0, 0, 0,  1, 0, 0, 0,  0xE8, 0x03, 0, 0,
      28, 0, 0, 0,  0, 0, 0, 0,  0, 0, 0, 0,
      0x43, 0x3A, 0]"

text \<open>The same header followed by a LinkInfo header with flags word 3 (both bits),
  \<open>LinkInfoSize\<close> 44, both \<open>VolumeIDOffset\<close> and \<open>CommonNetworkRelativeLinkOffset\<close> 28, and by
  a 16-byte volume record: size 16, drive type 3, serial \<open>0x1234ABCD\<close>, label offset 20.\<close>

definition linkinfo_both :: "byte list" where
  "linkinfo_both =
     [0x4C, 0, 0, 0,
      0, 0, 0, 0, 0, 0, 0, 0, 0, 0, 0, 0, 0, 0, 0, 0,
      0x02, 0, 0, 0,
      0, 0, 0, 0,
      0, 0, 0, 0, 0, 0, 0, 0, 0, 0, 0, 0, 0, 0, 0, 0, 0, 0, 0, 0, 0, 0, 0, 0,
      0, 0, 0, 0, 0, 0, 0, 0, 0, 0, 0, 0,
      0, 0, 0, 0, 0, 0, 0, 0, 0, 0, 0, 0,
      44, 0, 0, 0,  28, 0, 0, 0,  3, 0, 0, 0,  28, 0, 0, 0,
      0, 0, 0, 0,  28, 0, 0, 0,  0, 0, 0, 0,
      16, 0, 0, 0,  3, 0, 0, 0,  0xCD, 0xAB, 0x34, 0x12,  20, 0, 0, 0]"

text \<open>A header with \<open>HasLinkInfo\<close> followed by a LinkInfo header whose \<open>LinkInfoSize\<close> is
  \<open>0xFFFFFFAE\<close>, read as the signed number -82, with a flags word of zero, and by six more
  bytes, \<open>09 00 00 00 00 00\<close>: 110 bytes in all.\<close>

definition negative_size_buf :: "byte list" where
  "negative_size_buf =
     [0x4C, 0, 0, 0,
      0, 0, 0, 0, 0, 0, 0, 0, 0, 0, 0, 0, 0, 0, 0, 0,
      0x02, 0, 0, 0,
      0, 0, 0, 0,
      0, 0, 0, 0, 0, 0, 0, 0, 0, 0, 0, 0, 0, 0, 0, 0, 0, 0, 0, 0, 0, 0, 0, 0,
      0, 0, 0, 0, 0, 0, 0, 0, 0, 0, 0, 0,
      0, 0, 0, 0, 0, 0, 0, 0, 0, 0, 0, 0,
      0xAE, 0xFF, 0xFF, 0xFF,  28, 0, 0, 0,  0, 0, 0, 0,  0, 0, 0, 0,
      0, 0, 0, 0,  0, 0, 0, 0,  0, 0, 0, 0,
      9, 0, 0, 0, 0, 0]"

text \<open>Two extra blocks: one of declared size 12 with the signature \<open>0xA0000005\<close>, which no
  decoder knows, then one of declared size 0; ten more bytes follow.\<close>

definition blocks_buf :: "byte list" where
  "blocks_buf =
     [12, 0, 0, 0,  0x05, 0, 0, 0xA0,  1, 2, 3, 4,
      0, 0, 0, 0,  0, 0, 0, 0,
      0, 0, 0, 0, 0, 0, 0, 0, 0, 0]"

text \<open>A link of 114 bytes with link flags \<open>0x8C\<close> (\<open>HasName\<close>, \<open>HasRelativePath\<close>,
  \<open>IsUnicode\<close>): after the header, with the class identifier of shell links, come the
  description of twelve two-byte characters, a tab and then \<open>evil.exe -x\<close>, and the relative
  path of five, \<open>a.exe\<close>.\<close>

definition named_link :: "byte list" where
  "named_link =
     [0x4C, 0, 0, 0,
      0x01, 0x14, 0x02, 0, 0, 0, 0, 0, 0xC0, 0, 0, 0, 0, 0, 0, 0x46,
      0x8C, 0, 0, 0,
      0, 0, 0, 0,
      0, 0, 0, 0, 0, 0, 0, 0, 0, 0, 0, 0, 0, 0, 0, 0, 0, 0, 0, 0, 0, 0, 0, 0,
      0, 0, 0, 0, 0, 0, 0, 0, 0, 0, 0, 0,
      0, 0, 0, 0, 0, 0, 0, 0, 0, 0, 0, 0,
      12, 0,
      0x09, 0, 0x65, 0, 0x76, 0, 0x69, 0, 0x6C, 0, 0x2E, 0,
      0x65, 0, 0x78, 0, 0x65, 0, 0x20, 0, 0x2D, 0, 0x78, 0,
      5, 0,
      0x61, 0, 0x2E, 0, 0x65, 0, 0x78, 0, 0x65, 0]"

text \<open>A header with link flags \<open>0x02\<close> and nothing after it.\<close>

definition header_02 :: "byte list" where
  "header_02 =
     [0x4C, 0, 0, 0,
      0, 0, 0, 0, 0, 0, 0, 0, 0, 0, 0, 0, 0, 0, 0, 0,
      0x02, 0, 0, 0,
      0, 0, 0, 0,
      0, 0, 0, 0, 0, 0, 0, 0, 0, 0, 0, 0, 0, 0, 0, 0, 0, 0, 0, 0, 0, 0, 0, 0,
      0, 0, 0, 0, 0, 0, 0, 0, 0, 0, 0, 0,
      0, 0, 0, 0, 0, 0, 0, 0, 0, 0, 0, 0]"

text \<open>A header with link flags \<open>0x7C\<close> (all five string flags), then a length prefix of 16
  with twelve bytes behind it, which are four one-character strings: \<open>a\<close>, \<open>b\<close>, \<open>c\<close>,
  \<open>d\<close>.\<close>

definition five_fields_buf :: "byte list" where
  "five_fields_buf =
     [0x4C, 0, 0, 0,
      0, 0, 0, 0, 0, 0, 0, 0, 0, 0, 0, 0, 0, 0, 0, 0,
      0x7C, 0, 0, 0,
      0, 0, 0, 0,
      0, 0, 0, 0, 0, 0, 0, 0, 0, 0, 0, 0, 0, 0, 0, 0, 0, 0, 0, 0, 0, 0, 0, 0,
      0, 0, 0, 0, 0, 0, 0, 0, 0, 0, 0, 0,
      0, 0, 0, 0, 0, 0, 0, 0, 0, 0, 0, 0,
      0x10, 0,  1, 0, 0x61,  1, 0, 0x62,  1, 0, 0x63,  1, 0, 0x64]"


text \<open>A file system without files: every \<open>open\<close> raises.\<close>

definition no_files :: "string \<Rightarrow> string + byte list" where
  "no_files p = Inl (''[Errno 2] No such file or directory: '' @ p)"

subsection \<open>Names for the steps of the string section\<close>

text \<open>\<open>u_mult\<close>, and the value of \<open>index\<close> after each of the five \<open>if\<close> statements of the
  string section (lemmas \<open>string_section_description\<close> to \<open>string_section_cursor\<close> below tie
  them to \<open>parse_string_data\<close>).\<close>

definition u_mult_of :: "lnk \<Rightarrow> int" where
  "u_mult_of st = (if flag_get (linkFlag st) ''IsUnicode'' then 2 else 1)"

definition cursor1 :: "lnk \<Rightarrow> int \<Rightarrow> int" where
  "cursor1 st index =
     (if flag_get (linkFlag st) ''HasName''
      then fst (read_string_data (indata st) index (u_mult_of st)) else index)"

definition cursor2 :: "lnk \<Rightarrow> int \<Rightarrow> int" where
  "cursor2 st index =
     (if flag_get (linkFlag st) ''HasRelativePath''
      then fst (read_string_data (indata st) (cursor1 st index) (u_mult_of st))
      else cursor1 st index)"

definition cursor3 :: "lnk \<Rightarrow> int \<Rightarrow> int" where
  "cursor3 st index =
     (if flag_get (linkFlag st) ''HasWorkingDir''
      then fst (read_string_data (indata st) (cursor2 st index) (u_mult_of st))
      else cursor2 st index)"

definition cursor4 :: "lnk \<Rightarrow> int \<Rightarrow> int" where
  "cursor4 st index =
     (if flag_get (linkFlag st) ''HasArguments''
      then fst (read_string_data (indata st) (cursor3 st index) (u_mult_of st))
      else cursor3 st index)"

definition cursor5 :: "lnk \<Rightarrow> int \<Rightarrow> int" where
  "cursor5 st index =
     (if flag_get (linkFlag st) ''HasIconLocation''
      then fst (read_string_data (indata st) (cursor4 st index) (u_mult_of st))
      else cursor4 st index)"

text \<open>The three ways a read of \<open>_read_string_data\<close> fails: fewer than two bytes left, a
  length prefix that cannot be unpacked, a declared span that passes the end of the buffer.
  \<open>overlong\<close> is the third.\<close>

definition overlong :: "byte list \<Rightarrow> int \<Rightarrow> int \<Rightarrow> bool" where
  "overlong d index u_mult =
     (index + 2 \<le> int (length d)
      \<and> (case unpack_H (py_slice d index (index + 2)) of
           None \<Rightarrow> False
         | Some n \<Rightarrow> index + 2 + n * u_mult > int (length d)))"

definition read_fails :: "byte list \<Rightarrow> int \<Rightarrow> int \<Rightarrow> bool" where
  "read_fails d index u_mult =
     (index + 2 > int (length d)
      \<or> (case unpack_H (py_slice d index (index + 2)) of
           None \<Rightarrow> True
         | Some n \<Rightarrow> index + 2 + n * u_mult > int (length d)))"

subsection \<open>Names for the walk of the extra blocks\<close>

text \<open>The object and the index with which \<open>_parse\<close> enters the loop of the extra blocks,
  that is \<open>parse_regions\<close> up to and including the string section (lemma
  \<open>parse_regions_walk\<close> below).\<close>

definition walk_start :: "lnk \<Rightarrow> int \<Rightarrow> lnk \<times> int" where
  "walk_start st index0 =
     (let index1 =
            (if flag_get (linkFlag st) ''HasTargetIDList''
             then skip_target_id_list (indata st) index0 else index0);
          (st4, index2) =
            (if flag_get (linkFlag st) ''HasLinkInfo'' \<and> \<not> flag_get (linkFlag st) ''ForceNoLinkInfo''
             then parse_link_info st index1 else (st, index1))
      in parse_string_data st4 index2)"

text \<open>The loop again, with a bound on the number of iterations: \<open>None\<close> when the bound is
  used up before the loop ends.\<close>

fun walk_fuel :: "nat \<Rightarrow> byte list \<Rightarrow> extra_blocks \<Rightarrow> int \<Rightarrow> (extra_blocks \<times> int) option" where
  "walk_fuel 0 d eb index = None"
| "walk_fuel (Suc n) d eb index =
     (if index \<le> int (length d) - 10 then
        (case unpack_I (py_slice d index (index + 4)) of
           None \<Rightarrow> Some (eb, index)
         | Some sz \<Rightarrow>
             if sz < 4 then Some (eb, index)
             else
               (case unpack_I (py_slice d (index + 4) (index + 8)) of
                  None \<Rightarrow> Some (eb, index)
                | Some sg \<Rightarrow>
                    walk_fuel n d (dispatch_block d eb (drop 2 (py_hex sg)) index sz)
                      (index + sz)))
      else Some (eb, index))"

section \<open>Lemmas about the decoders\<close>

lemma py_slice_nonneg:
  "0 \<le> i \<Longrightarrow> i \<le> j \<Longrightarrow> py_slice xs i j = take (nat j - nat i) (drop (nat i) xs)"
  by (auto simp: py_slice_def norm_index_def Let_def min_def)

lemma length_py_slice:
  "0 \<le> i \<Longrightarrow> i \<le> j \<Longrightarrow> j \<le> int (length xs) \<Longrightarrow> length (py_slice xs i j) = nat (j - i)"
  by (auto simp: py_slice_nonneg)

lemma py_slice_prefix:
  "0 \<le> i \<Longrightarrow> i \<le> j \<Longrightarrow> j \<le> k \<Longrightarrow> py_slice (py_slice xs 0 k) i j = py_slice xs i j"
  by (auto simp: py_slice_nonneg take_drop min_def)

lemma decode_header_fields_Some:
  assumes "length h = 76"
  shows "\<exists>r lf ff. decode_header_fields h h0 = Some r
           \<and> unpack_i (py_slice h 20 24) = Some lf \<and> rlinkFlags r = Some lf
           \<and> unpack_i (py_slice h 24 28) = Some ff \<and> rfileFlags r = Some ff
           \<and> header_size r = header_size h0"
  using assms
  by (simp add: decode_header_fields_def unpack_i_def unpack_q_def unpack_I_def unpack_H_def
      length_py_slice)

lemma header_unpack_total:
  assumes "76 \<le> length d"
  shows "unpack_I (py_slice d 0 4) \<noteq> None \<and> decode_header_fields (py_slice d 0 76) h0 \<noteq> None"
proof -
  have "length (py_slice d 0 76) = 76" using assms by (simp add: length_py_slice)
  from decode_header_fields_Some [OF this, of h0] show ?thesis
    using assms by (auto simp: unpack_I_def length_py_slice)
qed

lemma parse_valid:
  assumes len: "76 \<le> length (indata st)" and hs: "unpack_I (py_slice (indata st) 0 4) = Some 76"
  shows "\<exists>h lf ff. unpack_i (py_slice (indata st) 20 24) = Some lf
            \<and> unpack_i (py_slice (indata st) 24 28) = Some ff
            \<and> header_size h = Some 76 \<and> rlinkFlags h = Some lf \<and> rfileFlags h = Some ff
            \<and> parse st =
                (parse_regions
                   (st\<lparr>header := h, linkFlag := decode_link_flags lf,
                       fileFlag := decode_file_flags ff\<rparr>) 76, None)"
proof -
  have l76: "length (py_slice (indata st) 0 76) = 76" using len by (simp add: length_py_slice)
  from decode_header_fields_Some [OF l76, of "(header st)\<lparr>header_size := Some 76\<rparr>"]
  obtain h a b where h: "decode_header_fields (py_slice (indata st) 0 76) ((header st)\<lparr>header_size := Some 76\<rparr>) = Some h"
    and lf: "unpack_i (py_slice (py_slice (indata st) 0 76) 20 24) = Some a"
    and ff: "unpack_i (py_slice (py_slice (indata st) 0 76) 24 28) = Some b"
    and ab: "rlinkFlags h = Some a" "rfileFlags h = Some b"
    and sz: "header_size h = Some 76"
    by auto
  have hdr: "parse_lnk_header st = (st\<lparr>header := h\<rparr>, True)"
    using len hs h by (simp add: parse_lnk_header_def)
  have "parse st = (parse_regions (st\<lparr>header := h, linkFlag := decode_link_flags a,
                       fileFlag := decode_file_flags b\<rparr>) 76, None)"
    by (simp add: parse_def hdr parse_link_flags_def parse_file_flags_def ab sz)
  moreover have "unpack_i (py_slice (indata st) 20 24) = Some a"
    using lf ab by (simp add: py_slice_prefix)
  moreover have "unpack_i (py_slice (indata st) 24 28) = Some b"
    using ff ab by (simp add: py_slice_prefix)
  ultimately show ?thesis using ab sz by blast
qed

lemma parse_invalid:
  assumes "length (indata st) < 76 \<or> unpack_I (py_slice (indata st) 0 4) \<noteq> Some 76"
    and "parse_error st = None"
  shows "snd (parse st) = Some (LnkForensicsError ''Parsing failed: Invalid LNK header: None'')
       \<and> parsed (fst (parse st)) = parsed st
       \<and> indata (fst (parse st)) = indata st
       \<and> parse_error (fst (parse st)) = Some ''Invalid LNK header: None''"
proof (cases "length (indata st) < 76")
  case True
  then show ?thesis using assms(2) by (simp add: parse_def parse_lnk_header_def parsing_failed_def)
next
  case False
  then have ge: "76 \<le> length (indata st)" by simp
  with header_unpack_total [OF ge] obtain hs where hs: "unpack_I (py_slice (indata st) 0 4) = Some hs"
    by auto
  with assms False have "hs \<noteq> 76" by auto
  then show ?thesis using False hs assms(2)
    by (simp add: parse_def parse_lnk_header_def parsing_failed_def Let_def)
qed

lemmas slice_eval = py_slice_def norm_index_def unpack_I_def unpack_i_def unpack_H_def
  unpack_q_def to_signed_def

lemma linkFlag_parse_link_info [simp]: "linkFlag (fst (parse_link_info st i)) = linkFlag st"
  by (simp add: parse_link_info_def link_info_body_def Let_def
      split: option.splits prod.splits if_splits)

lemma linkFlag_parse_string_data [simp]: "linkFlag (fst (parse_string_data st i)) = linkFlag st"
  by (simp add: parse_string_data_def Let_def split_def)

lemma linkFlag_parse_regions [simp]: "linkFlag (parse_regions st i) = linkFlag st"
  by (simp add: parse_regions_def Let_def split_def)

lemma linkFlag_parse:
  assumes "76 \<le> length (indata st)" "unpack_I (py_slice (indata st) 0 4) = Some 76"
    "unpack_i (py_slice (indata st) 20 24) = Some lf"
  shows "linkFlag (fst (parse st)) = decode_link_flags lf"
  using parse_valid [OF assms(1,2)] assms(3) by auto

lemma unpack_I_first4:
  "76 \<le> length d \<Longrightarrow> unpack_I (py_slice d 0 4) = Some (le_int (take 4 d))"
  by (simp add: unpack_I_def py_slice_nonneg)

lemma parse_rejects:
  assumes "length d < 76 \<or> le_int (take 4 d) \<noteq> 76"
  shows "snd (parse (loaded p d)) = Some (LnkForensicsError ''Parsing failed: Invalid LNK header: None'')"
    and "\<not> parsed (fst (parse (loaded p d)))"
    and "indata (fst (parse (loaded p d))) = d"
    and "parse_error (fst (parse (loaded p d))) = Some ''Invalid LNK header: None''"
proof -
  have a: "length (indata (loaded p d)) < 76 \<or> unpack_I (py_slice (indata (loaded p d)) 0 4) \<noteq> Some 76"
    using assms unpack_I_first4 [of d] by (cases "length d < 76") (auto simp: loaded_def)
  have b: "parse_error (loaded p d) = None" by (simp add: loaded_def)
  from parse_invalid [OF a b]
  show "snd (parse (loaded p d)) = Some (LnkForensicsError ''Parsing failed: Invalid LNK header: None'')"
    and "\<not> parsed (fst (parse (loaded p d)))"
    and "indata (fst (parse (loaded p d))) = d"
    and "parse_error (fst (parse (loaded p d))) = Some ''Invalid LNK header: None''"
    by (simp_all add: loaded_def)
qed

lemma header_decoder_fails:
  assumes "length d < 76 \<or> le_int (take 4 d) \<noteq> 76"
  shows "snd (parse_lnk_header (loaded p d)) = False"
proof (cases "length d < 76")
  case True
  then show ?thesis by (simp add: parse_lnk_header_def loaded_def)
next
  case False
  then have "unpack_I (py_slice d 0 4) = Some (le_int (take 4 d))" by (simp add: unpack_I_first4)
  then show ?thesis using False assms
    by (simp add: parse_lnk_header_def loaded_def Let_def)
qed

lemmas cursor_defs = cursor1_def cursor2_def cursor3_def cursor4_def cursor5_def u_mult_of_def

lemma string_section_description:
  "description (data (fst (parse_string_data st index))) =
     (if flag_get (linkFlag st) ''HasName''
      then Some (snd (read_string_data (indata st) index (u_mult_of st)))
      else description (data st))"
  by (simp add: parse_string_data_def cursor_defs Let_def split_def)

lemma string_section_relativePath:
  "relativePath (data (fst (parse_string_data st index))) =
     (if flag_get (linkFlag st) ''HasRelativePath''
      then Some (snd (read_string_data (indata st) (cursor1 st index) (u_mult_of st)))
      else relativePath (data st))"
  by (simp add: parse_string_data_def cursor_defs Let_def split_def)

lemma string_section_workingDirectory:
  "workingDirectory (data (fst (parse_string_data st index))) =
     (if flag_get (linkFlag st) ''HasWorkingDir''
      then Some (snd (read_string_data (indata st) (cursor2 st index) (u_mult_of st)))
      else workingDirectory (data st))"
  by (simp add: parse_string_data_def cursor_defs Let_def split_def)

lemma string_section_commandLineArguments:
  "commandLineArguments (data (fst (parse_string_data st index))) =
     (if flag_get (linkFlag st) ''HasArguments''
      then Some (snd (read_string_data (indata st) (cursor3 st index) (u_mult_of st)))
      else commandLineArguments (data st))"
  by (simp add: parse_string_data_def cursor_defs Let_def split_def)

lemma string_section_iconLocation:
  "iconLocation (data (fst (parse_string_data st index))) =
     (if flag_get (linkFlag st) ''HasIconLocation''
      then Some (snd (read_string_data (indata st) (cursor4 st index) (u_mult_of st)))
      else iconLocation (data st))"
  by (simp add: parse_string_data_def cursor_defs Let_def split_def)

lemma string_section_cursor:
  "snd (parse_string_data st index) = cursor5 st index"
  by (simp add: parse_string_data_def cursor_defs Let_def split_def)

lemma read_string_data_overlong:
  assumes "index + 2 \<le> int (length d)" "unpack_H (py_slice d index (index + 2)) = Some n"
    "index + 2 + n * u_mult > int (length d)"
  shows "read_string_data d index u_mult = (index + 2, [])"
  using assms by (simp add: read_string_data_def Let_def)

lemma read_string_data_cursor:
  "fst (read_string_data d index u_mult) = index \<or> fst (read_string_data d index u_mult) = index + 2
   \<or> (\<exists>n. unpack_H (py_slice d index (index + 2)) = Some n
          \<and> index + 2 + n * u_mult \<le> int (length d)
          \<and> fst (read_string_data d index u_mult) = index + 2 + n * u_mult)"
  by (auto simp: read_string_data_def Let_def split: option.splits)


lemma read_fails_result:
  "read_fails d index u_mult \<Longrightarrow>
     snd (read_string_data d index u_mult) = []
     \<and> (fst (read_string_data d index u_mult) = index
          \<or> fst (read_string_data d index u_mult) = index + 2)"
  by (auto simp: read_fails_def read_string_data_def Let_def split: option.splits)



lemma parse_succeeds:
  assumes "76 \<le> length (indata st)" "unpack_I (py_slice (indata st) 0 4) = Some 76"
  shows "snd (parse st) = None \<and> parsed (fst (parse st))"
  using parse_valid [OF assms] by (auto simp: parse_regions_def Let_def split_def)

lemma overlong_buf_reads:
  "length overlong_buf = 83 \<and> overlong overlong_buf 76 1 \<and> read_fails overlong_buf 76 1
   \<and> read_string_data overlong_buf 76 1 = (78, [])
   \<and> read_string_data overlong_buf 78 1 = (83, ''abc'')"
  by (simp add: overlong_buf_def overlong_def read_fails_def read_string_data_def slice_eval
      clean_line_def drop_nuls_def char_of_eq_iff)

lemma overlong_buf_header:
  "76 \<le> length overlong_buf \<and> unpack_I (py_slice overlong_buf 0 4) = Some 76
   \<and> unpack_i (py_slice overlong_buf 20 24) = Some 0x0C"
  by (simp add: overlong_buf_def slice_eval)

lemma flags_0C:
  "flag_get (decode_link_flags 0x0C) ''HasName''"
  "flag_get (decode_link_flags 0x0C) ''HasRelativePath''"
  "\<not> flag_get (decode_link_flags 0x0C) ''HasTargetIDList''"
  "\<not> flag_get (decode_link_flags 0x0C) ''HasLinkInfo''"
  "\<not> flag_get (decode_link_flags 0x0C) ''IsUnicode''"
  "\<not> flag_get (decode_link_flags 0x0C) ''HasWorkingDir''"
  "\<not> flag_get (decode_link_flags 0x0C) ''HasArguments''"
  "\<not> flag_get (decode_link_flags 0x0C) ''HasIconLocation''"
  by (simp_all add: flag_get_def decode_link_flags_def)

lemma data_parse_regions_plain:
  assumes "\<not> flag_get (linkFlag st) ''HasTargetIDList''" "\<not> flag_get (linkFlag st) ''HasLinkInfo''"
  shows "data (parse_regions st i) = data (fst (parse_string_data st i))"
  using assms by (simp add: parse_regions_def Let_def split_def)


lemma cursor_cong:
  assumes "indata a = indata b" "linkFlag a = linkFlag b"
  shows "u_mult_of a = u_mult_of b" "cursor1 a i = cursor1 b i" "cursor2 a i = cursor2 b i"
    "cursor3 a i = cursor3 b i" "cursor4 a i = cursor4 b i" "cursor5 a i = cursor5 b i"
proof -
  show u: "u_mult_of a = u_mult_of b" using assms by (simp add: u_mult_of_def)
  show c1: "cursor1 a i = cursor1 b i" using assms u by (simp add: cursor1_def)
  show c2: "cursor2 a i = cursor2 b i" using assms u c1 by (simp add: cursor2_def)
  show c3: "cursor3 a i = cursor3 b i" using assms u c2 by (simp add: cursor3_def)
  show c4: "cursor4 a i = cursor4 b i" using assms u c3 by (simp add: cursor4_def)
  show "cursor5 a i = cursor5 b i" using assms u c4 by (simp add: cursor5_def)
qed

lemma string_section_data_cong:
  assumes "indata a = indata b" "linkFlag a = linkFlag b" "data a = data b"
  shows "data (fst (parse_string_data a i)) = data (fst (parse_string_data b i))"
proof (rule string_data.equality)
  note c = cursor_cong [OF assms(1,2)]
  show "description (data (fst (parse_string_data a i))) = description (data (fst (parse_string_data b i)))"
    using assms c by (simp add: string_section_description)
  show "relativePath (data (fst (parse_string_data a i))) = relativePath (data (fst (parse_string_data b i)))"
    using assms c by (simp add: string_section_relativePath)
  show "workingDirectory (data (fst (parse_string_data a i))) = workingDirectory (data (fst (parse_string_data b i)))"
    using assms c by (simp add: string_section_workingDirectory)
  show "commandLineArguments (data (fst (parse_string_data a i))) = commandLineArguments (data (fst (parse_string_data b i)))"
    using assms c by (simp add: string_section_commandLineArguments)
  show "iconLocation (data (fst (parse_string_data a i))) = iconLocation (data (fst (parse_string_data b i)))"
    using assms c by (simp add: string_section_iconLocation)
qed simp

lemma data_parse_plain:
  assumes "76 \<le> length (indata st)" "unpack_I (py_slice (indata st) 0 4) = Some 76"
    and "unpack_i (py_slice (indata st) 20 24) = Some lf"
    and "\<not> flag_get (decode_link_flags lf) ''HasTargetIDList''"
    and "\<not> flag_get (decode_link_flags lf) ''HasLinkInfo''"
  shows "data (fst (parse st))
           = data (fst (parse_string_data (st\<lparr>linkFlag := decode_link_flags lf\<rparr>) 76))"
proof -
  from parse_valid [OF assms(1,2)] assms(3) obtain h ff where
    p: "parse st = (parse_regions (st\<lparr>header := h, linkFlag := decode_link_flags lf,
                       fileFlag := decode_file_flags ff\<rparr>) 76, None)"
    by auto
  show ?thesis
    using assms(4,5)
    by (simp add: p data_parse_regions_plain string_section_data_cong
        [of "st\<lparr>header := h, linkFlag := decode_link_flags lf, fileFlag := decode_file_flags ff\<rparr>"
            "st\<lparr>linkFlag := decode_link_flags lf\<rparr>"])
qed

lemma overlong_buf_state:
  "u_mult_of ((loaded None overlong_buf)\<lparr>linkFlag := decode_link_flags 0x0C\<rparr>) = 1
   \<and> cursor1 ((loaded None overlong_buf)\<lparr>linkFlag := decode_link_flags 0x0C\<rparr>) 76 = 78
   \<and> cursor5 ((loaded None overlong_buf)\<lparr>linkFlag := decode_link_flags 0x0C\<rparr>) 76 = 83
   \<and> indata ((loaded None overlong_buf)\<lparr>linkFlag := decode_link_flags 0x0C\<rparr>) = overlong_buf"
  using overlong_buf_reads by (simp add: cursor_defs flags_0C loaded_def)
















lemma link_info_body_no_header:
  "read_link_info (indata st) index = None \<Longrightarrow> link_info_body st index = (st, None)"
  by (simp add: link_info_body_def)

lemma link_info_body_shapes:
  assumes "read_link_info (indata st) index = Some li"
  shows "LinkInfo (loc (fst (link_info_body st index))) = Some li"
    and "snd (link_info_body st index) \<noteq> None \<Longrightarrow>
           snd (link_info_body st index) = Some (index + LinkInfoSize li)"
    and "snd (link_info_body st index) \<noteq> None \<Longrightarrow>
           (VolumeIDAndLocalBasePath (loc (fst (link_info_body st index))) \<noteq> None)
             = (LinkInfoFlags li AND 1 \<noteq> 0)"
    and "snd (link_info_body st index) \<noteq> None \<Longrightarrow>
           (CommonNetworkRelativeLinkAndPathSuffix (loc (fst (link_info_body st index))) \<noteq> None)
             = (LinkInfoFlags li AND 1 = 0 \<and> LinkInfoFlags li AND 2 \<noteq> 0)"
    and "snd (link_info_body st index) = None \<Longrightarrow>
           VolumeIDAndLocalBasePath (loc (fst (link_info_body st index))) = None
           \<and> CommonNetworkRelativeLinkAndPathSuffix (loc (fst (link_info_body st index))) = None"
    and "LinkInfoFlags li AND 1 = 0 \<Longrightarrow>
           VolumeIDAndLocalBasePath (loc (fst (link_info_body st index))) = None"
    and "LinkInfoFlags li AND 1 \<noteq> 0 \<Longrightarrow>
           CommonNetworkRelativeLinkAndPathSuffix (loc (fst (link_info_body st index))) = None"
  using assms
  by (auto simp: link_info_body_def Let_def split: option.splits if_splits)

lemma parse_link_info_caught:
  "snd (link_info_body st index) = None \<Longrightarrow>
     parse_link_info st index = (fst (link_info_body st index), index)"
  by (cases "link_info_body st index") (simp add: parse_link_info_def)

lemma parse_link_info_fst:
  "fst (parse_link_info st index) = fst (link_info_body st index)"
  by (cases "link_info_body st index") (simp add: parse_link_info_def split: option.splits)

lemma loc_parse_string_data [simp]: "loc (fst (parse_string_data st i)) = loc st"
  by (simp add: parse_string_data_def Let_def split_def)

lemma loc_parse_regions:
  "loc (parse_regions st i) =
     (if flag_get (linkFlag st) ''HasLinkInfo'' \<and> \<not> flag_get (linkFlag st) ''ForceNoLinkInfo''
      then loc (fst (link_info_body st
             (if flag_get (linkFlag st) ''HasTargetIDList''
              then skip_target_id_list (indata st) i else i)))
      else loc st)"
  by (simp add: parse_regions_def Let_def split_def parse_link_info_fst)

lemma link_info_body_cong:
  assumes "indata a = indata b" "loc a = loc b"
  shows "loc (fst (link_info_body a i)) = loc (fst (link_info_body b i))
       \<and> snd (link_info_body a i) = snd (link_info_body b i)"
  using assms
  by (auto simp: link_info_body_def Let_def split: option.splits if_splits)


lemma parse_invalid_loc:
  assumes "length (indata st) < 76 \<or> unpack_I (py_slice (indata st) 0 4) \<noteq> Some 76"
  shows "loc (fst (parse st)) = loc st"
proof (cases "length (indata st) < 76")
  case True
  then show ?thesis by (simp add: parse_def parse_lnk_header_def parsing_failed_def)
next
  case False
  then have ge: "76 \<le> length (indata st)" by simp
  with header_unpack_total [OF ge] obtain hs where hs: "unpack_I (py_slice (indata st) 0 4) = Some hs"
    by auto
  with assms False have "hs \<noteq> 76" by auto
  then show ?thesis using False hs
    by (simp add: parse_def parse_lnk_header_def parsing_failed_def Let_def)
qed

lemma loc_parse:
  assumes "76 \<le> length (indata st)" "unpack_I (py_slice (indata st) 0 4) = Some 76"
    and "unpack_i (py_slice (indata st) 20 24) = Some lf"
  shows "loc (fst (parse st)) =
     (if flag_get (decode_link_flags lf) ''HasLinkInfo''
         \<and> \<not> flag_get (decode_link_flags lf) ''ForceNoLinkInfo''
      then loc (fst (link_info_body st
             (if flag_get (decode_link_flags lf) ''HasTargetIDList''
              then skip_target_id_list (indata st) 76 else 76)))
      else loc st)"
proof -
  from parse_valid [OF assms(1,2)] assms(3) obtain h ff where
    p: "parse st = (parse_regions (st\<lparr>header := h, linkFlag := decode_link_flags lf,
                       fileFlag := decode_file_flags ff\<rparr>) 76, None)"
    by auto
  show ?thesis
    using link_info_body_cong
      [of "st\<lparr>header := h, linkFlag := decode_link_flags lf, fileFlag := decode_file_flags ff\<rparr>" st]
    by (simp add: p loc_parse_regions)
qed

lemma at_most_one_sub_shape:
  "\<not> (VolumeIDAndLocalBasePath (loc st) \<noteq> None
        \<and> CommonNetworkRelativeLinkAndPathSuffix (loc st) \<noteq> None) \<Longrightarrow>
   \<not> (VolumeIDAndLocalBasePath (loc (fst (link_info_body st index))) \<noteq> None
        \<and> CommonNetworkRelativeLinkAndPathSuffix (loc (fst (link_info_body st index))) \<noteq> None)"
proof (cases "read_link_info (indata st) index")
  case None
  assume "\<not> (VolumeIDAndLocalBasePath (loc st) \<noteq> None
        \<and> CommonNetworkRelativeLinkAndPathSuffix (loc st) \<noteq> None)"
  then show ?thesis using None by (simp add: link_info_body_no_header)
next
  case (Some li)
  show ?thesis
    using link_info_body_shapes(6,7) [OF Some] by (cases "LinkInfoFlags li AND 1 = 0") auto
qed

lemma parse_at_most_one_sub_shape:
  "\<not> (VolumeIDAndLocalBasePath (loc (fst (parse (loaded p d)))) \<noteq> None
        \<and> CommonNetworkRelativeLinkAndPathSuffix (loc (fst (parse (loaded p d)))) \<noteq> None)"
proof (cases "76 \<le> length d \<and> unpack_I (py_slice d 0 4) = Some 76")
  case False
  then have "loc (fst (parse (loaded p d))) = loc (loaded p d)"
    using parse_invalid_loc [of "loaded p d"] by (auto simp: loaded_def)
  then show ?thesis by (simp add: loaded_def empty_loc_def)
next
  case True
  then have v: "76 \<le> length (indata (loaded p d))"
    "unpack_I (py_slice (indata (loaded p d)) 0 4) = Some 76"
    by (simp_all add: loaded_def)
  from parse_valid [OF v] obtain lf where
    lf: "unpack_i (py_slice (indata (loaded p d)) 20 24) = Some lf" by auto
  have e: "\<not> (VolumeIDAndLocalBasePath (loc (loaded p d)) \<noteq> None
        \<and> CommonNetworkRelativeLinkAndPathSuffix (loc (loaded p d)) \<noteq> None)"
    by (simp add: loaded_def empty_loc_def)
  show ?thesis
    using at_most_one_sub_shape [OF e] e by (simp add: loc_parse [OF v lf])
qed

lemma flags_02:
  "flag_get (decode_link_flags 0x02) ''HasLinkInfo''"
  "\<not> flag_get (decode_link_flags 0x02) ''ForceNoLinkInfo''"
  "\<not> flag_get (decode_link_flags 0x02) ''HasTargetIDList''"
  by (simp_all add: flag_get_def decode_link_flags_def)

lemma read_string_loop_end:
  "\<not> index < int (length d) \<Longrightarrow> read_string_loop d index r = Some r"
  by (subst read_string_loop.simps) simp

lemma read_string_loop_nul:
  "index < int (length d) \<Longrightarrow> py_index d index = Some 0 \<Longrightarrow> read_string_loop d index r = Some r"
  by (subst read_string_loop.simps) simp

lemma read_string_loop_step:
  "index < int (length d) \<Longrightarrow> py_index d index = Some b \<Longrightarrow> b \<noteq> 0 \<Longrightarrow>
     read_string_loop d index r = read_string_loop d (index + 1) (r @ [char_of (uint b)])"
  by (subst read_string_loop.simps) simp

lemma hex_digits_small: "n < 16 \<Longrightarrow> hex_digits n = [hex_digit n]"
  by (subst hex_digits.simps) simp

lemma hex_digits_big:
  "\<not> n < 16 \<Longrightarrow> hex_digits n = hex_digits (n div 16) @ [hex_digit (n mod 16)]"
  by (subst hex_digits.simps) simp

lemmas hex_eval = py_hex_def hex_digits_small hex_digits_big hex_digit_def

lemma linkinfo_neither_header:
  "76 \<le> length (indata (loaded None linkinfo_neither))
   \<and> unpack_I (py_slice (indata (loaded None linkinfo_neither)) 0 4) = Some 76
   \<and> unpack_i (py_slice (indata (loaded None linkinfo_neither)) 20 24) = Some 0x02"
  by (simp add: linkinfo_neither_def loaded_def slice_eval)

lemma linkinfo_neither_read:
  "read_link_info linkinfo_neither 76 =
     Some \<lparr>LinkInfoSize = 28, LinkInfoHeaderSize = 28, LinkInfoFlags = 0,
             VolumeIDOffset = 0, LocalBasePathOffset = 0, CommonNetworkRelativeLinkOffset = 0,
             CommonPathSuffixOffset = 0\<rparr>"
  by (simp add: read_link_info_def linkinfo_neither_def slice_eval)

lemma linkinfo_neither_body:
  "snd (link_info_body (loaded None linkinfo_neither) 76) = Some 104
   \<and> loc (fst (link_info_body (loaded None linkinfo_neither) 76)) =
        \<lparr>LinkInfo = Some \<lparr>LinkInfoSize = 28, LinkInfoHeaderSize = 28, LinkInfoFlags = 0,
             VolumeIDOffset = 0, LocalBasePathOffset = 0, CommonNetworkRelativeLinkOffset = 0,
             CommonPathSuffixOffset = 0\<rparr>,
         LocalBasePath = None, VolumeIDAndLocalBasePath = None,
         CommonNetworkRelativeLinkAndPathSuffix = None\<rparr>"
  using linkinfo_neither_read by (simp add: link_info_body_def loaded_def)

lemma linkinfo_broken_header:
  "76 \<le> length (indata (loaded None linkinfo_broken))
   \<and> unpack_I (py_slice (indata (loaded None linkinfo_broken)) 0 4) = Some 76
   \<and> unpack_i (py_slice (indata (loaded None linkinfo_broken)) 20 24) = Some 0x02"
  by (simp add: linkinfo_broken_def loaded_def slice_eval)

lemma linkinfo_broken_read:
  "read_link_info linkinfo_broken 76 =
     Some \<lparr>LinkInfoSize = 31, LinkInfoHeaderSize = 28, LinkInfoFlags = 1,
             VolumeIDOffset = 1000, LocalBasePathOffset = 28, CommonNetworkRelativeLinkOffset = 0,
             CommonPathSuffixOffset = 0\<rparr>"
  by (simp add: read_link_info_def linkinfo_broken_def slice_eval)

lemma linkinfo_broken_string: "read_string linkinfo_broken 104 = Some ''C:''"
  by (simp add: read_string_def linkinfo_broken_def read_string_loop_end read_string_loop_nul
      read_string_loop_step py_index_def char_of_eq_iff)

lemma linkinfo_broken_volume: "read_volume_id linkinfo_broken 1076 = None"
  by (simp add: read_volume_id_def linkinfo_broken_def slice_eval)

lemma linkinfo_broken_body:
  "snd (link_info_body (loaded None linkinfo_broken) 76) = None
   \<and> loc (fst (link_info_body (loaded None linkinfo_broken) 76)) =
        \<lparr>LinkInfo = Some \<lparr>LinkInfoSize = 31, LinkInfoHeaderSize = 28, LinkInfoFlags = 1,
             VolumeIDOffset = 1000, LocalBasePathOffset = 28, CommonNetworkRelativeLinkOffset = 0,
             CommonPathSuffixOffset = 0\<rparr>,
         LocalBasePath = Some ''C:'', VolumeIDAndLocalBasePath = None,
         CommonNetworkRelativeLinkAndPathSuffix = None\<rparr>"
  using linkinfo_broken_read linkinfo_broken_string linkinfo_broken_volume
  by (simp add: link_info_body_def loaded_def)

lemma linkinfo_both_read:
  "read_link_info linkinfo_both 76 =
     Some \<lparr>LinkInfoSize = 44, LinkInfoHeaderSize = 28, LinkInfoFlags = 3,
             VolumeIDOffset = 28, LocalBasePathOffset = 0, CommonNetworkRelativeLinkOffset = 28,
             CommonPathSuffixOffset = 0\<rparr>"
  by (simp add: read_link_info_def linkinfo_both_def slice_eval)

lemma linkinfo_both_volume:
  "read_volume_id linkinfo_both 104 =
     Some \<lparr>VolumeIDSize = 16, rDriveType = 3, DriveSerialNumber = ''0x1234abcd'',
           VolumeLabelOffset = 20, DriveType = None, VolumeLabel = None\<rparr>"
  by (simp add: read_volume_id_def linkinfo_both_def slice_eval hex_eval)

lemma linkinfo_both_body:
  "snd (link_info_body (loaded None linkinfo_both) 76) = Some 120
   \<and> VolumeIDAndLocalBasePath (loc (fst (link_info_body (loaded None linkinfo_both) 76)))
       = Some \<lparr>VolumeIDSize = 16, rDriveType = 3, DriveSerialNumber = ''0x1234abcd'',
           VolumeLabelOffset = 20, DriveType = Some ''DRIVE_FIXED'', VolumeLabel = None\<rparr>"
  using linkinfo_both_read linkinfo_both_volume
  by (simp add: link_info_body_def loaded_def add_drive_type_def add_volume_label_def
      DRIVE_TYPES_def)

lemma parse_regions_walk:
  "parse_regions st i =
     (let (st5, index3) = walk_start st i;
          (eb, index4) = walk_extra_blocks (indata st5) (extraBlocks st5) index3
      in st5\<lparr>extraBlocks := eb, parsed := True\<rparr>)"
  by (simp add: parse_regions_def walk_start_def Let_def split_def)

lemma walk_stop:
  "\<not> index \<le> int (length d) - 10 \<Longrightarrow> walk_extra_blocks d eb index = (eb, index)"
  by (subst walk_extra_blocks.simps) simp

lemma walk_no_size:
  "index \<le> int (length d) - 10 \<Longrightarrow> unpack_I (py_slice d index (index + 4)) = None \<Longrightarrow>
     walk_extra_blocks d eb index = (eb, index)"
  by (subst walk_extra_blocks.simps) simp

lemma walk_small_size:
  "index \<le> int (length d) - 10 \<Longrightarrow> unpack_I (py_slice d index (index + 4)) = Some sz \<Longrightarrow>
     sz < 4 \<Longrightarrow> walk_extra_blocks d eb index = (eb, index)"
  by (subst walk_extra_blocks.simps) simp

lemma walk_no_signature:
  "index \<le> int (length d) - 10 \<Longrightarrow> unpack_I (py_slice d index (index + 4)) = Some sz \<Longrightarrow>
     \<not> sz < 4 \<Longrightarrow> unpack_I (py_slice d (index + 4) (index + 8)) = None \<Longrightarrow>
     walk_extra_blocks d eb index = (eb, index)"
  by (subst walk_extra_blocks.simps) simp

lemma walk_advance:
  "index \<le> int (length d) - 10 \<Longrightarrow> unpack_I (py_slice d index (index + 4)) = Some sz \<Longrightarrow>
     \<not> sz < 4 \<Longrightarrow> unpack_I (py_slice d (index + 4) (index + 8)) = Some sg \<Longrightarrow>
     walk_extra_blocks d eb index
       = walk_extra_blocks d (dispatch_block d eb (drop 2 (py_hex sg)) index sz) (index + sz)"
  by (subst walk_extra_blocks.simps) simp

lemma reads_inside:
  assumes "0 \<le> index" "index \<le> int (length d) - 10"
  shows "unpack_I (py_slice d index (index + 4)) \<noteq> None"
    and "unpack_I (py_slice d (index + 4) (index + 8)) \<noteq> None"
  using assms by (simp_all add: unpack_I_def length_py_slice)

lemma walk_monotone: "index \<le> snd (walk_extra_blocks d eb index)"
proof (induction d eb index rule: walk_extra_blocks.induct)
  case (1 d eb index)
  show ?case
  proof (cases "index \<le> int (length d) - 10")
    case False
    then show ?thesis by (simp add: walk_stop)
  next
    case True
    show ?thesis
    proof (cases "unpack_I (py_slice d index (index + 4))")
      case None
      then show ?thesis using True by (simp add: walk_no_size)
    next
      case (Some sz)
      show ?thesis
      proof (cases "sz < 4")
        case True
        then show ?thesis using \<open>index \<le> int (length d) - 10\<close> Some by (simp add: walk_small_size)
      next
        case False
        show ?thesis
        proof (cases "unpack_I (py_slice d (index + 4) (index + 8))")
          case None
          then show ?thesis using True Some False by (simp add: walk_no_signature)
        next
          case (Some sg)
          from "1.IH" [OF True \<open>unpack_I (py_slice d index (index + 4)) = Some sz\<close> False Some]
          have "index + sz \<le> snd (walk_extra_blocks d
                  (dispatch_block d eb (drop 2 (py_hex sg)) index sz) (index + sz))" .
          then show ?thesis
            using True \<open>unpack_I (py_slice d index (index + 4)) = Some sz\<close> False Some
            by (simp add: walk_advance)
        qed
      qed
    qed
  qed
qed

lemma walk_fuel_enough:
  "nat (int (length d) - 9 - index) < n \<Longrightarrow>
     walk_fuel n d eb index = Some (walk_extra_blocks d eb index)"
proof (induction n arbitrary: eb index)
  case 0
  then show ?case by simp
next
  case (Suc n)
  show ?case
  proof (cases "index \<le> int (length d) - 10")
    case False
    then show ?thesis by (simp add: walk_stop)
  next
    case True
    show ?thesis
    proof (cases "unpack_I (py_slice d index (index + 4))")
      case None
      then show ?thesis using True by (simp add: walk_no_size)
    next
      case sz: (Some sz)
      show ?thesis
      proof (cases "sz < 4")
        case True
        then show ?thesis using \<open>index \<le> int (length d) - 10\<close> sz by (simp add: walk_small_size)
      next
        case False
        show ?thesis
        proof (cases "unpack_I (py_slice d (index + 4) (index + 8))")
          case None
          then show ?thesis using True sz False by (simp add: walk_no_signature)
        next
          case (Some sg)
          have "nat (int (length d) - 9 - (index + sz)) < n"
            using Suc.prems True False by linarith
          from Suc.IH [OF this]
          show ?thesis using True sz False Some by (simp add: walk_advance)
        qed
      qed
    qed
  qed
qed


lemma flags_02_strings:
  "\<not> flag_get (decode_link_flags 0x02) ''IsUnicode''"
  "\<not> flag_get (decode_link_flags 0x02) ''HasName''"
  "\<not> flag_get (decode_link_flags 0x02) ''HasRelativePath''"
  "\<not> flag_get (decode_link_flags 0x02) ''HasWorkingDir''"
  "\<not> flag_get (decode_link_flags 0x02) ''HasArguments''"
  "\<not> flag_get (decode_link_flags 0x02) ''HasIconLocation''"
  by (simp_all add: flag_get_def decode_link_flags_def)

lemma negative_size_read:
  "read_link_info negative_size_buf 76 =
     Some \<lparr>LinkInfoSize = - 82, LinkInfoHeaderSize = 28, LinkInfoFlags = 0,
             VolumeIDOffset = 0, LocalBasePathOffset = 0, CommonNetworkRelativeLinkOffset = 0,
             CommonPathSuffixOffset = 0\<rparr>"
  by (simp add: read_link_info_def negative_size_buf_def slice_eval)

lemma negative_size_start:
  "snd (walk_start ((loaded None negative_size_buf)\<lparr>linkFlag := decode_link_flags 0x02\<rparr>) 76) = - 6"
proof -
  let ?S = "(loaded None negative_size_buf)\<lparr>linkFlag := decode_link_flags 0x02\<rparr>"
  have b: "link_info_body ?S 76 =
      (?S\<lparr>loc := \<lparr>LinkInfo = Some \<lparr>LinkInfoSize = - 82, LinkInfoHeaderSize = 28, LinkInfoFlags = 0,
             VolumeIDOffset = 0, LocalBasePathOffset = 0, CommonNetworkRelativeLinkOffset = 0,
             CommonPathSuffixOffset = 0\<rparr>, LocalBasePath = None,
             VolumeIDAndLocalBasePath = None,
             CommonNetworkRelativeLinkAndPathSuffix = None\<rparr>\<rparr>, Some (- 6))"
    using negative_size_read by (simp add: link_info_body_def loaded_def)
  show ?thesis
    by (simp add: walk_start_def parse_link_info_def b flags_02 flags_02_strings
        string_section_cursor cursor_defs Let_def)
qed

lemma negative_size_header:
  "76 \<le> length (indata (loaded None negative_size_buf))
   \<and> unpack_I (py_slice (indata (loaded None negative_size_buf)) 0 4) = Some 76
   \<and> unpack_i (py_slice (indata (loaded None negative_size_buf)) 20 24) = Some 0x02"
  by (simp add: negative_size_buf_def loaded_def slice_eval)

lemma negative_size_reads:
  "- 6 \<le> int (length negative_size_buf) - 10
   \<and> unpack_I (py_slice negative_size_buf (- 6) (- 6 + 4)) = Some 9
   \<and> unpack_I (py_slice negative_size_buf (- 6 + 4) (- 6 + 8)) = None"
  by (simp add: negative_size_buf_def slice_eval)

lemma blocks_buf_reads:
  "0 \<le> int (length blocks_buf) - 10
   \<and> unpack_I (py_slice blocks_buf 0 (0 + 4)) = Some 12
   \<and> unpack_I (py_slice blocks_buf (0 + 4) (0 + 8)) = Some 0xA0000005
   \<and> 12 \<le> int (length blocks_buf) - 10
   \<and> unpack_I (py_slice blocks_buf 12 (12 + 4)) = Some 0"
  by (simp add: blocks_buf_def slice_eval)

lemma blocks_buf_dispatch:
  "dispatch_block blocks_buf empty_blocks (drop 2 (py_hex 0xA0000005)) 0 12 = empty_blocks"
  by (simp add: dispatch_block_def hex_eval)

lemma parse_error_parse_link_info [simp]:
  "parse_error (fst (parse_link_info st i)) = parse_error st"
  by (simp add: parse_link_info_fst link_info_body_def Let_def
      split: option.splits prod.splits if_splits)

lemma parse_error_parse_string_data [simp]:
  "parse_error (fst (parse_string_data st i)) = parse_error st"
  by (simp add: parse_string_data_def Let_def split_def)

lemma parse_error_parse_regions [simp]: "parse_error (parse_regions st i) = parse_error st"
  by (simp add: parse_regions_def Let_def split_def)

lemma construct_rejects:
  assumes "length d < 76 \<or> le_int (take 4 d) \<noteq> 76"
  shows "construct (loaded p d) = Inl (LnkForensicsError ''Parsing failed: Invalid LNK header: None'')"
  using parse_rejects(1) [OF assms, of p]
  by (cases "parse (loaded p d)") (simp add: construct_def)

lemma construct_accepts:
  assumes "76 \<le> length d" "le_int (take 4 d) = 76"
  shows "construct (loaded p d) = Inr (fst (parse (loaded p d)))
       \<and> is_valid (fst (parse (loaded p d)))"
proof -
  have v: "76 \<le> length (indata (loaded p d))"
    "unpack_I (py_slice (indata (loaded p d)) 0 4) = Some 76"
    using assms by (simp_all add: loaded_def unpack_I_first4)
  from parse_valid [OF v] have e: "parse_error (fst (parse (loaded p d))) = None"
    by (auto simp: loaded_def)
  show ?thesis
    using parse_succeeds [OF v] e
    by (cases "parse (loaded p d)") (simp add: construct_def is_valid_def)
qed

lemma init_raw_data:
  "init open_read None None (Some raw) =
     (if raw = [] then Inl (LnkForensicsError ''Must provide file_path, file_handle, or raw_data'')
      else if length raw < 76 \<or> le_int (take 4 raw) \<noteq> 76
      then Inl (LnkForensicsError ''Parsing failed: Invalid LNK header: None'')
      else Inr (fst (parse (loaded None raw))))"
  using construct_rejects [of raw None] construct_accepts [of raw None]
  by (auto simp: init_def)

lemma py_slice_take:
  "0 \<le> i \<Longrightarrow> i \<le> j \<Longrightarrow> j \<le> int n \<Longrightarrow> py_slice (take n d) i j = py_slice d i j"
  by (simp add: py_slice_nonneg drop_take min_def) (auto simp: nat_le_iff)

lemma le_int_nonneg: "0 \<le> le_int bs"
  by (induction bs) auto

lemma header_parse_link_info [simp]: "header (fst (parse_link_info st i)) = header st"
  by (simp add: parse_link_info_fst link_info_body_def Let_def
      split: option.splits prod.splits if_splits)

lemma header_parse_string_data [simp]: "header (fst (parse_string_data st i)) = header st"
  by (simp add: parse_string_data_def Let_def split_def)

lemma header_parse_regions [simp]: "header (parse_regions st i) = header st"
  by (simp add: parse_regions_def Let_def split_def)

lemma fileFlag_parse_link_info [simp]: "fileFlag (fst (parse_link_info st i)) = fileFlag st"
  by (simp add: parse_link_info_fst link_info_body_def Let_def
      split: option.splits prod.splits if_splits)

lemma fileFlag_parse_string_data [simp]: "fileFlag (fst (parse_string_data st i)) = fileFlag st"
  by (simp add: parse_string_data_def Let_def split_def)

lemma fileFlag_parse_regions [simp]: "fileFlag (parse_regions st i) = fileFlag st"
  by (simp add: parse_regions_def Let_def split_def)

lemma header_parse:
  assumes len: "76 \<le> length (indata st)" and hs: "unpack_I (py_slice (indata st) 0 4) = Some 76"
  shows "Some (header (fst (parse st)))
           = decode_header_fields (py_slice (indata st) 0 76) ((header st)\<lparr>header_size := Some 76\<rparr>)
       \<and> Some (fileFlag (fst (parse st)))
           = map_option decode_file_flags (unpack_i (py_slice (indata st) 24 28))
       \<and> Some (linkFlag (fst (parse st)))
           = map_option decode_link_flags (unpack_i (py_slice (indata st) 20 24))"
proof -
  have l76: "length (py_slice (indata st) 0 76) = 76" using len by (simp add: length_py_slice)
  from decode_header_fields_Some [OF l76, of "(header st)\<lparr>header_size := Some 76\<rparr>"]
  obtain h a b where h: "decode_header_fields (py_slice (indata st) 0 76) ((header st)\<lparr>header_size := Some 76\<rparr>) = Some h"
    and lf: "unpack_i (py_slice (py_slice (indata st) 0 76) 20 24) = Some a"
    and ff: "unpack_i (py_slice (py_slice (indata st) 0 76) 24 28) = Some b"
    and ab: "rlinkFlags h = Some a" "rfileFlags h = Some b"
    and sz: "header_size h = Some 76"
    by auto
  have hdr: "parse_lnk_header st = (st\<lparr>header := h\<rparr>, True)"
    using len hs h by (simp add: parse_lnk_header_def)
  have p: "parse st = (parse_regions (st\<lparr>header := h, linkFlag := decode_link_flags a,
                       fileFlag := decode_file_flags b\<rparr>) 76, None)"
    by (simp add: parse_def hdr parse_link_flags_def parse_file_flags_def ab sz)
  have "unpack_i (py_slice (indata st) 20 24) = Some a" "unpack_i (py_slice (indata st) 24 28) = Some b"
    using lf ff by (simp_all add: py_slice_prefix)
  then show ?thesis by (simp add: p h)
qed

lemma parse_prefix_header:
  assumes "76 \<le> n" "76 \<le> length d" "le_int (take 4 d) = 76"
  shows "header (fst (parse (loaded p (take n d)))) = header (fst (parse (loaded p d)))
       \<and> linkFlag (fst (parse (loaded p (take n d)))) = linkFlag (fst (parse (loaded p d)))
       \<and> fileFlag (fst (parse (loaded p (take n d)))) = fileFlag (fst (parse (loaded p d)))"
proof -
  have s: "\<And>i j. 0 \<le> i \<Longrightarrow> i \<le> j \<Longrightarrow> j \<le> 76 \<Longrightarrow> py_slice (take n d) i j = py_slice d i j"
    using assms(1) by (simp add: py_slice_take)
  have v: "76 \<le> length (indata (loaded p d))"
    "unpack_I (py_slice (indata (loaded p d)) 0 4) = Some 76"
    using assms by (simp_all add: loaded_def unpack_I_first4)
  have v': "76 \<le> length (indata (loaded p (take n d)))"
    "unpack_I (py_slice (indata (loaded p (take n d))) 0 4) = Some 76"
    using assms v by (simp_all add: loaded_def s)
  show ?thesis
    using header_parse [OF v] header_parse [OF v']
    by (simp add: loaded_def s) (metis option.inject)
qed

lemma read_string_data_take:
  assumes "0 \<le> i" "0 \<le> u" "\<not> read_fails (take n d) i u"
  shows "read_string_data (take n d) i u = read_string_data d i u"
proof -
  let ?m = "int (length (take n d))"
  from assms(3) have a: "i + 2 \<le> ?m" by (simp add: read_fails_def)
  from assms(3) obtain L where L: "unpack_H (py_slice (take n d) i (i + 2)) = Some L"
    and b: "i + 2 + L * u \<le> ?m"
    by (auto simp: read_fails_def split: option.splits)
  have mn: "?m \<le> int n" "?m \<le> int (length d)" by simp_all
  have "0 \<le> L" using L le_int_nonneg by (auto simp: unpack_H_def split: if_splits)
  then have Lu: "0 \<le> L * u" using assms(2) by simp
  have s1: "py_slice (take n d) i (i + 2) = py_slice d i (i + 2)"
    using assms(1) a mn by (simp add: py_slice_take)
  have s2: "py_slice (take n d) (i + 2) (i + 2 + L * u) = py_slice d (i + 2) (i + 2 + L * u)"
    using assms(1) b mn Lu by (simp add: py_slice_take)
  have L': "unpack_H (py_slice d i (i + 2)) = Some L" using L s1 by simp
  have c: "\<not> i + 2 > int (length d)" "\<not> i + 2 + L * u > int (length d)"
    using a b mn by linarith+
  have c': "\<not> i + 2 > ?m" "\<not> i + 2 + L * u > ?m"
    using a b by linarith+
  have lhs: "read_string_data (take n d) i u
      = (i + L * u + 2, clean_line (drop_nuls (py_slice (take n d) (i + 2) (i + 2 + L * u))))"
    unfolding read_string_data_def using c' L by (simp add: Let_def del: length_take)
  have rhs: "read_string_data d i u
      = (i + L * u + 2, clean_line (drop_nuls (py_slice d (i + 2) (i + 2 + L * u))))"
    unfolding read_string_data_def using c L' by (simp add: Let_def)
  show ?thesis by (simp only: lhs rhs s2)
qed

lemma flags_8C:
  "flag_get (decode_link_flags 0x8C) ''HasName''"
  "flag_get (decode_link_flags 0x8C) ''HasRelativePath''"
  "\<not> flag_get (decode_link_flags 0x8C) ''HasTargetIDList''"
  "\<not> flag_get (decode_link_flags 0x8C) ''HasLinkInfo''"
  "flag_get (decode_link_flags 0x8C) ''IsUnicode''"
  "\<not> flag_get (decode_link_flags 0x8C) ''HasWorkingDir''"
  "\<not> flag_get (decode_link_flags 0x8C) ''HasArguments''"
  "\<not> flag_get (decode_link_flags 0x8C) ''HasIconLocation''"
  by (simp_all add: flag_get_def decode_link_flags_def)

lemma named_link_length: "length named_link = 114"
  by (simp add: named_link_def)

lemma named_link_header:
  "76 \<le> length named_link \<and> le_int (take 4 named_link) = 76
   \<and> unpack_i (py_slice named_link 20 24) = Some 0x8C
   \<and> 76 \<le> length (take 100 named_link) \<and> le_int (take 4 (take 100 named_link)) = 76
   \<and> unpack_i (py_slice (take 100 named_link) 20 24) = Some 0x8C
   \<and> take 100 named_link \<noteq> []"
  by (simp add: named_link_def slice_eval)

lemma named_link_reads:
  "read_string_data named_link 76 2 = (102, ''evil.exe -x'')
   \<and> read_string_data named_link 102 2 = (114, ''a.exe'')
   \<and> read_string_data named_link 78 2 = (98, ''evil.exe '')"
  by (simp add: named_link_def read_string_data_def slice_eval clean_line_def drop_nuls_def
      char_of_eq_iff)

lemma named_prefix_reads:
  "read_fails (take 100 named_link) 76 2
   \<and> read_string_data (take 100 named_link) 76 2 = (78, [])
   \<and> \<not> read_fails (take 100 named_link) 78 2
   \<and> read_string_data (take 100 named_link) 78 2 = (98, ''evil.exe '')"
  by (simp add: named_link_def read_string_data_def read_fails_def slice_eval clean_line_def
      drop_nuls_def char_of_eq_iff)

lemma named_strings:
  assumes v: "76 \<le> length d" "le_int (take 4 d) = 76" "unpack_i (py_slice d 20 24) = Some 0x8C"
  shows "snd (parse (loaded None d)) = None"
    and "description (data (fst (parse (loaded None d))))
           = Some (snd (read_string_data d 76 2))"
    and "relativePath (data (fst (parse (loaded None d))))
           = Some (snd (read_string_data d (fst (read_string_data d 76 2)) 2))"
    and "get_target_command (fst (parse (loaded None d)))
           = strip (snd (read_string_data d (fst (read_string_data d 76 2)) 2))"
proof -
  let ?st = "loaded None d"
  let ?S = "?st\<lparr>linkFlag := decode_link_flags 0x8C\<rparr>"
  have w: "76 \<le> length (indata ?st)" "unpack_I (py_slice (indata ?st) 0 4) = Some 76"
    "unpack_i (py_slice (indata ?st) 20 24) = Some 0x8C"
    using v by (simp_all add: loaded_def unpack_I_first4)
  have lf: "linkFlag (fst (parse ?st)) = decode_link_flags 0x8C"
    by (rule linkFlag_parse [OF w])
  have dt: "data (fst (parse ?st)) = data (fst (parse_string_data ?S 76))"
    by (rule data_parse_plain [OF w flags_8C(3,4)])
  have ps: "snd (parse ?st) = None" "parsed (fst (parse ?st))"
    using parse_succeeds [OF w(1,2)] by simp_all
  have S: "indata ?S = d" "linkFlag ?S = decode_link_flags 0x8C"
    by (simp_all add: loaded_def)
  have u: "u_mult_of ?S = 2" by (simp add: u_mult_of_def S flags_8C)
  have c1: "cursor1 ?S 76 = fst (read_string_data d 76 2)"
    by (simp add: cursor1_def S flags_8C u)
  show "snd (parse ?st) = None" by (rule ps)
  show de: "description (data (fst (parse ?st))) = Some (snd (read_string_data d 76 2))"
    by (simp add: dt string_section_description S flags_8C u)
  show rp: "relativePath (data (fst (parse ?st)))
           = Some (snd (read_string_data d (fst (read_string_data d 76 2)) 2))"
    by (simp add: dt string_section_relativePath S flags_8C u c1)
  have "commandLineArguments (data (fst (parse_string_data ?S 76))) = None"
    by (simp add: string_section_commandLineArguments S flags_8C loaded_def empty_data_def)
  then have "commandLineArguments (data (fst (parse ?st))) = None"
    by (simp only: dt)
  then show "get_target_command (fst (parse ?st))
           = strip (snd (read_string_data d (fst (read_string_data d 76 2)) 2))"
    by (simp add: get_target_command_def ps lf rp flags_8C Let_def)
qed

lemma strip_evil: "strip ''evil.exe '' = ''evil.exe'' \<and> strip ''a.exe'' = ''a.exe''"
  by (simp add: strip_def isspace_def)

lemma flags_7C:
  "flag_get (decode_link_flags 0x7C) ''HasName''"
  "flag_get (decode_link_flags 0x7C) ''HasRelativePath''"
  "flag_get (decode_link_flags 0x7C) ''HasWorkingDir''"
  "flag_get (decode_link_flags 0x7C) ''HasArguments''"
  "flag_get (decode_link_flags 0x7C) ''HasIconLocation''"
  "\<not> flag_get (decode_link_flags 0x7C) ''HasTargetIDList''"
  "\<not> flag_get (decode_link_flags 0x7C) ''HasLinkInfo''"
  "\<not> flag_get (decode_link_flags 0x7C) ''IsUnicode''"
  by (simp_all add: flag_get_def decode_link_flags_def)

lemma five_fields_header:
  "76 \<le> length (indata (loaded None five_fields_buf))
   \<and> unpack_I (py_slice (indata (loaded None five_fields_buf)) 0 4) = Some 76
   \<and> unpack_i (py_slice (indata (loaded None five_fields_buf)) 20 24) = Some 0x7C"
  by (simp add: five_fields_buf_def loaded_def slice_eval)

lemma five_fields_reads:
  "read_fails five_fields_buf 76 1
   \<and> read_string_data five_fields_buf 76 1 = (78, [])
   \<and> read_string_data five_fields_buf 78 1 = (81, ''a'')
   \<and> read_string_data five_fields_buf 81 1 = (84, ''b'')
   \<and> read_string_data five_fields_buf 84 1 = (87, ''c'')
   \<and> read_string_data five_fields_buf 87 1 = (90, ''d'')"
  by (simp add: five_fields_buf_def read_fails_def read_string_data_def slice_eval
      clean_line_def drop_nuls_def char_of_eq_iff)

lemma five_fields_state:
  "u_mult_of ((loaded None five_fields_buf)\<lparr>linkFlag := decode_link_flags 0x7C\<rparr>) = 1
   \<and> cursor1 ((loaded None five_fields_buf)\<lparr>linkFlag := decode_link_flags 0x7C\<rparr>) 76 = 78
   \<and> cursor2 ((loaded None five_fields_buf)\<lparr>linkFlag := decode_link_flags 0x7C\<rparr>) 76 = 81
   \<and> cursor3 ((loaded None five_fields_buf)\<lparr>linkFlag := decode_link_flags 0x7C\<rparr>) 76 = 84
   \<and> cursor4 ((loaded None five_fields_buf)\<lparr>linkFlag := decode_link_flags 0x7C\<rparr>) 76 = 87
   \<and> cursor5 ((loaded None five_fields_buf)\<lparr>linkFlag := decode_link_flags 0x7C\<rparr>) 76 = 90
   \<and> indata ((loaded None five_fields_buf)\<lparr>linkFlag := decode_link_flags 0x7C\<rparr>)
       = five_fields_buf"
  using five_fields_reads by (simp add: cursor_defs flags_7C loaded_def)




lemma header_02_read: "read_link_info (indata (loaded None header_02)) 76 = None"
  by (simp add: read_link_info_def header_02_def loaded_def slice_eval)

lemma blocks_buf_end: "\<not> 21 \<le> int (length blocks_buf) - 10"
  by (simp add: blocks_buf_def)


section \<open>The claims\<close>

lemma decode_2C: "get_enabled_flags (decode_link_flags 0x2C) = [''HasName'', ''HasRelativePath'', ''HasArguments'']"
  by (simp add: get_enabled_flags_def decode_link_flags_def)

subsection \<open>C1: a buffer without a valid header\<close>

text \<open>
  Claim C1, as the code has it. For every buffer shorter than 76 bytes, and for every buffer
  whose first four bytes do not decode (little-endian) to 76, the header decoder returns
  \<open>False\<close>, \<open>_parse\<close> raises \<open>LnkForensicsError\<close> with the invalid-header message, and the
  constructor gives no object. On the object \<open>_parse\<close> leaves, every accessor that tests
  \<open>self.parsed\<close> returns its default (the empty string, the empty dictionary, or for
  \<open>get_forensic_data\<close> the dictionary of the error alone). \<open>get_file_hashes\<close> tests
  \<open>self.indata\<close> instead: it returns the empty dictionary for the empty buffer only, and the
  three digests of every other rejected buffer.
\<close>

theorem invalid_header_rejected:
  assumes "length d < 76 \<or> le_int (take 4 d) \<noteq> 76"
  shows "snd (parse_lnk_header (loaded p d)) = False
       \<and> snd (parse (loaded p d)) = Some (LnkForensicsError ''Parsing failed: Invalid LNK header: None'')
       \<and> init open_read None None (Some d) \<noteq> Inr st
       \<and> \<not> is_valid (fst (parse (loaded p d)))
       \<and> get_target_command (fst (parse (loaded p d))) = []
       \<and> get_timestamps clock (fst (parse (loaded p d))) = JDict []
       \<and> get_machine_tracking (fst (parse (loaded p d))) = JDict []
       \<and> get_network_info (fst (parse (loaded p d))) = JDict []
       \<and> get_volume_info (fst (parse (loaded p d))) = JDict []
       \<and> get_link_flags (fst (parse (loaded p d))) = JDict []
       \<and> get_file_attributes (fst (parse (loaded p d))) = JDict []
       \<and> get_target_info (fst (parse (loaded p d))) = JDict []
       \<and> get_forensic_data basename clock (fst (parse (loaded p d)))
             = JDict [(''error'', JStr ''Invalid LNK header: None'')]
       \<and> get_file_hashes (fst (parse (loaded p d)))
             = (if d = [] then JDict []
                else JDict [(''md5'', JDigest MD5 d), (''sha1'', JDigest SHA1 d),
                            (''sha256'', JDigest SHA256 d)])"
proof -
  note r = parse_rejects [OF assms, of p]
  have i: "init open_read None None (Some d) \<noteq> Inr st"
    using parse_rejects(1) [OF assms, of None]
    by (auto simp: init_def construct_def split: prod.splits option.splits)
  show ?thesis
    using r i header_decoder_fails [OF assms, of p]
    by (simp add: is_valid_def get_target_command_def get_timestamps_def
        get_machine_tracking_def get_network_info_def get_volume_info_def get_link_flags_def
        get_file_attributes_def get_target_info_def get_forensic_data_def get_file_hashes_def
        get_or_def)
qed

text \<open>The theorem at a three-byte buffer.\<close>

theorem invalid_header_rejected_witness:
  "length [0x4C, 0, 0 :: byte] < 76
   \<and> snd (parse (loaded None [0x4C, 0, 0])) = Some (LnkForensicsError ''Parsing failed: Invalid LNK header: None'')
   \<and> get_target_command (fst (parse (loaded None [0x4C, 0, 0]))) = []
   \<and> get_file_hashes (fst (parse (loaded None [0x4C, 0, 0])))
        = JDict [(''md5'', JDigest MD5 [0x4C, 0, 0]), (''sha1'', JDigest SHA1 [0x4C, 0, 0]),
                 (''sha256'', JDigest SHA256 [0x4C, 0, 0])]"
  using invalid_header_rejected [of "[0x4C, 0, 0]" None] by simp

text \<open>"No accessor returns non-default data" fails at the one-byte buffer \<open>[0]\<close>: the parse
  is rejected and \<open>get_file_hashes\<close> still returns a dictionary that is not empty.\<close>

theorem invalid_header_rejected_counterexample:
  "length [0 :: byte] < 76
   \<and> snd (parse (loaded None [0])) = Some (LnkForensicsError ''Parsing failed: Invalid LNK header: None'')
   \<and> get_file_hashes (fst (parse (loaded None [0]))) \<noteq> JDict []"
  using parse_rejects [of "[0]" None] by (simp add: get_file_hashes_def)

subsection \<open>C2: truncated prefixes as \<open>raw_data\<close>\<close>

text \<open>
  Claim C2, as the code has it, for the buffers that are not empty. Every read of the parser
  is a slice, which Python clamps to the buffer, an index guarded by the length, or an
  \<open>unpack\<close> whose exception is caught; so for every non-empty buffer given as \<open>raw_data\<close>, in
  particular for every non-empty prefix of a valid link, the constructor either raises the
  invalid-header error, exactly when the buffer has fewer than 76 bytes or a header size
  other than 76, or returns a parsed, valid object. A prefix of 76 bytes or more of a buffer
  with a valid header gives the header fields and both flag sets of the whole buffer, and a
  length-prefixed string read that does not fail in the prefix returns what it returns at
  the same cursor in the whole buffer. The fields of the record are not always fields of the
  whole buffer: the counterexample below shows a field read after a failed read.
\<close>

theorem truncated_prefix:
  "(raw \<noteq> [] \<longrightarrow>
      init open_read None None (Some raw) =
        (if length raw < 76 \<or> le_int (take 4 raw) \<noteq> 76
         then Inl (LnkForensicsError ''Parsing failed: Invalid LNK header: None'')
         else Inr (fst (parse (loaded None raw)))))
   \<and> (76 \<le> length raw \<and> le_int (take 4 raw) = 76 \<longrightarrow>
        is_valid (fst (parse (loaded None raw))))
   \<and> (76 \<le> n \<and> 76 \<le> length d \<and> le_int (take 4 d) = 76 \<longrightarrow>
        header (fst (parse (loaded p (take n d)))) = header (fst (parse (loaded p d)))
        \<and> linkFlag (fst (parse (loaded p (take n d)))) = linkFlag (fst (parse (loaded p d)))
        \<and> fileFlag (fst (parse (loaded p (take n d)))) = fileFlag (fst (parse (loaded p d))))
   \<and> (0 \<le> i \<and> 0 \<le> u \<and> \<not> read_fails (take n d) i u \<longrightarrow>
        read_string_data (take n d) i u = read_string_data d i u)"
  using init_raw_data [of open_read raw] construct_accepts [of raw None]
    parse_prefix_header [of n d p] read_string_data_take [of i u n d]
  by simp

text \<open>The theorem at the first 100 bytes of \<open>named_link\<close>, which end inside the
  description: the object is valid, its header is the header of the whole link, and the
  read at byte 78, which does not fail, returns what it returns in the whole link.\<close>

theorem truncated_prefix_witness:
  "take 100 named_link \<noteq> []
   \<and> init no_files None None (Some (take 100 named_link))
       = Inr (fst (parse (loaded None (take 100 named_link))))
   \<and> 76 \<le> length (take 100 named_link) \<and> le_int (take 4 (take 100 named_link)) = 76
   \<and> is_valid (fst (parse (loaded None (take 100 named_link))))
   \<and> (76::nat) \<le> 100 \<and> 76 \<le> length named_link \<and> le_int (take 4 named_link) = 76
   \<and> header (fst (parse (loaded None (take 100 named_link))))
       = header (fst (parse (loaded None named_link)))
   \<and> (0::int) \<le> 78 \<and> (0::int) \<le> 2 \<and> \<not> read_fails (take 100 named_link) 78 2
   \<and> read_string_data (take 100 named_link) 78 2 = read_string_data named_link 78 2"
  using truncated_prefix [of "take 100 named_link" no_files 100 named_link None 78 2]
    named_link_header named_prefix_reads
  by (simp add: named_link_length)

text \<open>"A record containing only the fields decodable from that prefix" fails at the same
  prefix. In the whole link the description is \<open>evil.exe -x\<close> and the relative path, hence
  the target command, is \<open>a.exe\<close>. In the prefix the read of the description fails, the
  relative path is then read two bytes further, inside the description, and the record of
  the prefix holds the relative path \<open>evil.exe\<close> followed by a space, and the target command
  \<open>evil.exe\<close>, which neither the link nor the prefix contains as a relative path.\<close>

theorem truncated_prefix_counterexample:
  "init no_files None None (Some (take 100 named_link))
       = Inr (fst (parse (loaded None (take 100 named_link))))
   \<and> description (data (fst (parse (loaded None named_link)))) = Some ''evil.exe -x''
   \<and> relativePath (data (fst (parse (loaded None named_link)))) = Some ''a.exe''
   \<and> get_target_command (fst (parse (loaded None named_link))) = ''a.exe''
   \<and> description (data (fst (parse (loaded None (take 100 named_link))))) = Some []
   \<and> relativePath (data (fst (parse (loaded None (take 100 named_link))))) = Some ''evil.exe ''
   \<and> get_target_command (fst (parse (loaded None (take 100 named_link)))) = ''evil.exe''"
proof -
  have a: "76 \<le> length named_link" "le_int (take 4 named_link) = 76"
    "unpack_i (py_slice named_link 20 24) = Some 0x8C"
    and b: "76 \<le> length (take 100 named_link)" "le_int (take 4 (take 100 named_link)) = 76"
    "unpack_i (py_slice (take 100 named_link) 20 24) = Some 0x8C"
    and ne: "take 100 named_link \<noteq> []"
    using named_link_header by simp_all
  have i: "init no_files None None (Some (take 100 named_link))
       = Inr (fst (parse (loaded None (take 100 named_link))))"
    using init_raw_data [of no_files "take 100 named_link"] b ne
    by (simp add: named_link_length)
  show ?thesis
    using named_strings(2,3,4) [OF a] named_strings(2,3,4) [OF b] named_link_reads
      named_prefix_reads strip_evil i
    by simp
qed

subsection \<open>The empty buffer as \<open>raw_data\<close>\<close>

text \<open>
  The empty buffer is left out of C2 above. \<open>__init__\<close> chooses its input with truth tests,
  and empty bytes are false: constructed with \<open>raw_data = b''\<close> and nothing else, it never
  loads or parses the buffer and raises the error of a missing input. The same empty content
  behind a file handle is loaded and parsed, and raises the invalid-header error, as
  \<open>_parse\<close> does on the empty buffer.
\<close>

theorem empty_raw_data:
  "init open_read None None (Some [])
     = Inl (LnkForensicsError ''Must provide file_path, file_handle, or raw_data'')
   \<and> init open_read None (Some (Inr [])) None
     = Inl (LnkForensicsError ''Parsing failed: Invalid LNK header: None'')
   \<and> snd (parse (loaded None []))
     = Some (LnkForensicsError ''Parsing failed: Invalid LNK header: None'')"
  using construct_rejects [of "[]" None] parse_rejects(1) [of "[]" None]
  by (simp add: init_def)

subsection \<open>C3: the flags of the word 0x0000002C\<close>

text \<open>
  Claim C3, as the code has it. The masks of \<open>_parse_link_flags\<close> put \<open>HasName\<close> at
  \<open>0x04\<close>, \<open>HasRelativePath\<close> at \<open>0x08\<close>, \<open>HasWorkingDir\<close> at \<open>0x10\<close> and
  \<open>HasArguments\<close> at \<open>0x20\<close>. For every buffer that starts with a valid 76-byte header
  whose link-flags word (bytes 20 to 23) is \<open>0x0000002C\<close>, the flags the parse decodes as
  enabled are exactly \<open>HasName\<close>, \<open>HasRelativePath\<close> and \<open>HasArguments\<close>, in this order
  and no other; \<open>HasWorkingDir\<close> is not among them.
\<close>

theorem link_flags_0x2C:
  assumes "76 \<le> length d" "unpack_I (py_slice d 0 4) = Some 76"
    "unpack_i (py_slice d 20 24) = Some 0x2C"
  shows "get_enabled_flags (linkFlag (fst (parse (loaded p d))))
           = [''HasName'', ''HasRelativePath'', ''HasArguments'']"
  using linkFlag_parse [of "loaded p d" "0x2C"] assms
  by (simp add: loaded_def decode_2C)

lemma header_2C_shape:
  "length header_2C = 76 \<and> unpack_I (py_slice header_2C 0 4) = Some 76
     \<and> unpack_i (py_slice header_2C 20 24) = Some 0x2C"
  by (simp add: header_2C_def slice_eval)

text \<open>The theorem at the header \<open>header_2C\<close>.\<close>

theorem link_flags_0x2C_witness:
  "length header_2C = 76 \<and> unpack_I (py_slice header_2C 0 4) = Some 76
     \<and> unpack_i (py_slice header_2C 20 24) = Some 0x2C
     \<and> get_enabled_flags (linkFlag (fst (parse (loaded None header_2C))))
           = [''HasName'', ''HasRelativePath'', ''HasArguments'']"
  using link_flags_0x2C [of header_2C None] header_2C_shape by simp

text \<open>The set C3 names, \<open>HasRelativePath\<close>, \<open>HasArguments\<close> and \<open>HasWorkingDir\<close>, is not
  the set decoded from \<open>header_2C\<close>.\<close>

theorem link_flags_0x2C_counterexample:
  "set (get_enabled_flags (linkFlag (fst (parse (loaded None header_2C)))))
     \<noteq> {''HasRelativePath'', ''HasArguments'', ''HasWorkingDir''}"
proof -
  have "linkFlag (fst (parse (loaded None header_2C))) = decode_link_flags 0x2C"
    using linkFlag_parse [of "loaded None header_2C" "0x2C"] header_2C_shape
    by (simp add: loaded_def)
  then have "''HasName'' \<in> set (get_enabled_flags (linkFlag (fst (parse (loaded None header_2C)))))"
    by (simp add: decode_2C)
  moreover have "''HasName'' \<notin> {''HasRelativePath'', ''HasArguments'', ''HasWorkingDir''}"
    by simp
  ultimately show ?thesis by metis
qed

subsection \<open>C4: the timestamp conversion\<close>

text \<open>
  Claim C4 is about the text \<open>_ms_time_to_unix_time\<close> returns for one FILETIME value. That
  text is computed by the standard library from a floating-point quotient, in the local time
  zone of the host and within the range of the host's C library, none of which this
  embedding holds; the conversion is the parameter \<open>fromtimestamp_strftime\<close>. What the
  function itself adds is settled: it returns the library's text when there is one, and the
  sentinel \<open>Invalid timestamp\<close> whenever the library raises, so it never raises.
\<close>

lemma ms_time_to_unix_time_cases:
  "ms_time_to_unix_time fromtimestamp_strftime t =
     (if fromtimestamp_strftime t = None then ''Invalid timestamp''
      else the (fromtimestamp_strftime t))"
  by (simp add: ms_time_to_unix_time_def split: option.splits)

subsection \<open>C5: an exception inside the LinkInfo region\<close>

text \<open>
  Claim C5, as the code has it. An exception raised while the LinkInfo region is decoded is
  caught at the region boundary: the cursor stays where the region began and the overall
  parse of a buffer with a valid header still succeeds. The region is left as if it had never
  been entered only when the seven-field header of the region cannot be read. When the
  header is read and a later read raises, the header fields stay stored (as does
  \<open>LocalBasePath\<close>, if it was read before the failure), while neither the volume record nor
  the network-share record is. The region is entered exactly when \<open>HasLinkInfo\<close> is set and
  \<open>ForceNoLinkInfo\<close> is clear, and what it leaves is the LocationInfo of the parsed object.
\<close>

theorem link_info_exception_caught:
  "(read_link_info (indata st) index = None \<longrightarrow> parse_link_info st index = (st, index))
   \<and> (read_link_info (indata st) index = Some li \<and> snd (link_info_body st index) = None \<longrightarrow>
        snd (parse_link_info st index) = index
        \<and> LinkInfo (loc (fst (parse_link_info st index))) = Some li
        \<and> VolumeIDAndLocalBasePath (loc (fst (parse_link_info st index))) = None
        \<and> CommonNetworkRelativeLinkAndPathSuffix (loc (fst (parse_link_info st index))) = None)
   \<and> (76 \<le> length (indata st0) \<and> unpack_I (py_slice (indata st0) 0 4) = Some 76 \<longrightarrow>
        snd (parse st0) = None \<and> parsed (fst (parse st0)))
   \<and> (76 \<le> length (indata st0) \<and> unpack_I (py_slice (indata st0) 0 4) = Some 76
        \<and> unpack_i (py_slice (indata st0) 20 24) = Some lf \<longrightarrow>
        loc (fst (parse st0)) =
          (if flag_get (decode_link_flags lf) ''HasLinkInfo''
              \<and> \<not> flag_get (decode_link_flags lf) ''ForceNoLinkInfo''
           then loc (fst (parse_link_info st0
                  (if flag_get (decode_link_flags lf) ''HasTargetIDList''
                   then skip_target_id_list (indata st0) 76 else 76)))
           else loc st0))"
proof (intro conjI impI)
  assume "read_link_info (indata st) index = None"
  then show "parse_link_info st index = (st, index)"
    by (simp add: parse_link_info_def link_info_body_no_header)
next
  assume a: "read_link_info (indata st) index = Some li \<and> snd (link_info_body st index) = None"
  then have p: "parse_link_info st index = (fst (link_info_body st index), index)"
    by (simp add: parse_link_info_caught)
  show "snd (parse_link_info st index) = index" by (simp add: p)
  show "LinkInfo (loc (fst (parse_link_info st index))) = Some li"
    using a link_info_body_shapes(1) [of st index li] by (simp add: p)
  show "VolumeIDAndLocalBasePath (loc (fst (parse_link_info st index))) = None"
    using a link_info_body_shapes(5) [of st index li] by (simp add: p)
  show "CommonNetworkRelativeLinkAndPathSuffix (loc (fst (parse_link_info st index))) = None"
    using a link_info_body_shapes(5) [of st index li] by (simp add: p)
next
  assume "76 \<le> length (indata st0) \<and> unpack_I (py_slice (indata st0) 0 4) = Some 76"
  then show "snd (parse st0) = None" "parsed (fst (parse st0))"
    using parse_succeeds [of st0] by simp_all
next
  assume "76 \<le> length (indata st0) \<and> unpack_I (py_slice (indata st0) 0 4) = Some 76
        \<and> unpack_i (py_slice (indata st0) 20 24) = Some lf"
  then show "loc (fst (parse st0)) =
          (if flag_get (decode_link_flags lf) ''HasLinkInfo''
              \<and> \<not> flag_get (decode_link_flags lf) ''ForceNoLinkInfo''
           then loc (fst (parse_link_info st0
                  (if flag_get (decode_link_flags lf) ''HasTargetIDList''
                   then skip_target_id_list (indata st0) 76 else 76)))
           else loc st0)"
    using loc_parse [of st0 lf] by (simp add: parse_link_info_fst)
qed

text \<open>The theorem at \<open>header_02\<close>, where the buffer ends before the region's header (the
  object and the cursor are left as they were), and at \<open>linkinfo_broken\<close>: the region's
  header is read, the string at its \<open>LocalBasePathOffset\<close> is read, and the volume record, at
  offset 1000, raises; the cursor stays at 76 and the parse of the whole buffer succeeds.\<close>

theorem link_info_exception_caught_witness:
  "read_link_info (indata (loaded None header_02)) 76 = None
   \<and> parse_link_info (loaded None header_02) 76 = (loaded None header_02, 76)
   \<and> read_link_info (indata (loaded None linkinfo_broken)) 76
     = Some \<lparr>LinkInfoSize = 31, LinkInfoHeaderSize = 28, LinkInfoFlags = 1,
             VolumeIDOffset = 1000, LocalBasePathOffset = 28, CommonNetworkRelativeLinkOffset = 0,
             CommonPathSuffixOffset = 0\<rparr>
   \<and> snd (link_info_body (loaded None linkinfo_broken) 76) = None
   \<and> snd (parse_link_info (loaded None linkinfo_broken) 76) = 76
   \<and> VolumeIDAndLocalBasePath (loc (fst (parse_link_info (loaded None linkinfo_broken) 76))) = None
   \<and> 76 \<le> length (indata (loaded None linkinfo_broken))
   \<and> unpack_I (py_slice (indata (loaded None linkinfo_broken)) 0 4) = Some 76
   \<and> unpack_i (py_slice (indata (loaded None linkinfo_broken)) 20 24) = Some 0x02
   \<and> snd (parse (loaded None linkinfo_broken)) = None
   \<and> parsed (fst (parse (loaded None linkinfo_broken)))
   \<and> loc (fst (parse (loaded None linkinfo_broken)))
       = loc (fst (parse_link_info (loaded None linkinfo_broken) 76))"
proof -
  have r: "read_link_info (indata (loaded None linkinfo_broken)) 76
     = Some \<lparr>LinkInfoSize = 31, LinkInfoHeaderSize = 28, LinkInfoFlags = 1,
             VolumeIDOffset = 1000, LocalBasePathOffset = 28, CommonNetworkRelativeLinkOffset = 0,
             CommonPathSuffixOffset = 0\<rparr>"
    using linkinfo_broken_read by (simp add: loaded_def)
  have a: "parse_link_info (loaded None header_02) 76 = (loaded None header_02, 76)"
    using link_info_exception_caught [of "loaded None header_02" 76, THEN conjunct1]
      header_02_read by simp
  show ?thesis
    using link_info_exception_caught [of "loaded None linkinfo_broken" 76 _
        "loaded None linkinfo_broken" "0x02"]
      r linkinfo_broken_body linkinfo_broken_header a header_02_read
    by (simp add: flags_02)
qed

text \<open>"The LocationInfo region of the result is empty" fails at \<open>linkinfo_broken\<close>: the
  region raises, the parse succeeds, and the LocationInfo of the result holds the header
  fields and the base path, which \<open>get_volume_info\<close> returns.\<close>

theorem link_info_exception_caught_counterexample:
  "snd (link_info_body (loaded None linkinfo_broken) 76) = None
   \<and> snd (parse (loaded None linkinfo_broken)) = None
   \<and> loc (fst (parse (loaded None linkinfo_broken))) \<noteq> empty_loc
   \<and> LocalBasePath (loc (fst (parse (loaded None linkinfo_broken)))) = Some ''C:''
   \<and> get_volume_info (fst (parse (loaded None linkinfo_broken)))
       = JDict [(''local_base_path'', JStr ''C:'')]"
proof -
  note h = linkinfo_broken_header
  have l: "loc (fst (parse (loaded None linkinfo_broken)))
             = loc (fst (link_info_body (loaded None linkinfo_broken) 76))"
    using loc_parse [of "loaded None linkinfo_broken" "0x02"] h by (simp add: flags_02)
  have p: "snd (parse (loaded None linkinfo_broken)) = None"
    "parsed (fst (parse (loaded None linkinfo_broken)))"
    using parse_succeeds [of "loaded None linkinfo_broken"] h by simp_all
  show ?thesis
    using linkinfo_broken_body
    by (simp add: l p get_volume_info_def get_or_def empty_loc_def)
qed

subsection \<open>C6: the string section\<close>

text \<open>
  Claim C6, as the code has it. The five optional fields are read in the fixed order
  description, relative path, working directory, arguments, icon location; each is gated by
  its own link flag and is read at the cursor the fields before it have left, and the cursor
  after the section is the one the last read returns. A read that fails gives the empty
  string and leaves the cursor where it was or two bytes further; it stops nothing: every
  field whose flag is set is assigned, whatever happened to the fields before it, and a
  parse with a valid header never aborts.
\<close>

theorem string_section_order:
  "description (data (fst (parse_string_data st index))) =
     (if flag_get (linkFlag st) ''HasName''
      then Some (snd (read_string_data (indata st) index (u_mult_of st)))
      else description (data st))
   \<and> relativePath (data (fst (parse_string_data st index))) =
     (if flag_get (linkFlag st) ''HasRelativePath''
      then Some (snd (read_string_data (indata st) (cursor1 st index) (u_mult_of st)))
      else relativePath (data st))
   \<and> workingDirectory (data (fst (parse_string_data st index))) =
     (if flag_get (linkFlag st) ''HasWorkingDir''
      then Some (snd (read_string_data (indata st) (cursor2 st index) (u_mult_of st)))
      else workingDirectory (data st))
   \<and> commandLineArguments (data (fst (parse_string_data st index))) =
     (if flag_get (linkFlag st) ''HasArguments''
      then Some (snd (read_string_data (indata st) (cursor3 st index) (u_mult_of st)))
      else commandLineArguments (data st))
   \<and> iconLocation (data (fst (parse_string_data st index))) =
     (if flag_get (linkFlag st) ''HasIconLocation''
      then Some (snd (read_string_data (indata st) (cursor4 st index) (u_mult_of st)))
      else iconLocation (data st))
   \<and> snd (parse_string_data st index) = cursor5 st index
   \<and> (read_fails d i u \<longrightarrow>
         snd (read_string_data d i u) = []
         \<and> (fst (read_string_data d i u) = i \<or> fst (read_string_data d i u) = i + 2))
   \<and> (flag_get (linkFlag st) ''HasName'' \<longrightarrow>
         description (data (fst (parse_string_data st index))) \<noteq> None)
   \<and> (flag_get (linkFlag st) ''HasRelativePath'' \<longrightarrow>
         relativePath (data (fst (parse_string_data st index))) \<noteq> None)
   \<and> (flag_get (linkFlag st) ''HasWorkingDir'' \<longrightarrow>
         workingDirectory (data (fst (parse_string_data st index))) \<noteq> None)
   \<and> (flag_get (linkFlag st) ''HasArguments'' \<longrightarrow>
         commandLineArguments (data (fst (parse_string_data st index))) \<noteq> None)
   \<and> (flag_get (linkFlag st) ''HasIconLocation'' \<longrightarrow>
         iconLocation (data (fst (parse_string_data st index))) \<noteq> None)
   \<and> (76 \<le> length (indata st0) \<and> unpack_I (py_slice (indata st0) 0 4) = Some 76 \<longrightarrow>
         snd (parse st0) = None \<and> parsed (fst (parse st0)))"
  using read_fails_result [of d i u] parse_succeeds [of st0]
  by (simp add: string_section_description string_section_relativePath
      string_section_workingDirectory string_section_commandLineArguments
      string_section_iconLocation string_section_cursor)

text \<open>The theorem at \<open>five_fields_buf\<close>, whose link-flags word \<open>0x7C\<close> sets all five string
  flags and whose string section starts at byte 76: the read of the description fails (its
  prefix declares 16 bytes where 12 are left), the description is the empty string, and the
  four later fields are read from bytes 78, 81, 84 and 87 as \<open>a\<close>, \<open>b\<close>, \<open>c\<close> and \<open>d\<close>; the
  parse of the whole buffer raises nothing.\<close>

theorem string_section_order_witness:
  "read_fails five_fields_buf 76 1
   \<and> flag_get (linkFlag ((loaded None five_fields_buf)\<lparr>linkFlag := decode_link_flags 0x7C\<rparr>)) ''HasName''
   \<and> flag_get (linkFlag ((loaded None five_fields_buf)\<lparr>linkFlag := decode_link_flags 0x7C\<rparr>)) ''HasRelativePath''
   \<and> flag_get (linkFlag ((loaded None five_fields_buf)\<lparr>linkFlag := decode_link_flags 0x7C\<rparr>)) ''HasWorkingDir''
   \<and> flag_get (linkFlag ((loaded None five_fields_buf)\<lparr>linkFlag := decode_link_flags 0x7C\<rparr>)) ''HasArguments''
   \<and> flag_get (linkFlag ((loaded None five_fields_buf)\<lparr>linkFlag := decode_link_flags 0x7C\<rparr>)) ''HasIconLocation''
   \<and> description (data (fst (parse_string_data
         ((loaded None five_fields_buf)\<lparr>linkFlag := decode_link_flags 0x7C\<rparr>) 76))) = Some []
   \<and> relativePath (data (fst (parse_string_data
         ((loaded None five_fields_buf)\<lparr>linkFlag := decode_link_flags 0x7C\<rparr>) 76))) = Some ''a''
   \<and> workingDirectory (data (fst (parse_string_data
         ((loaded None five_fields_buf)\<lparr>linkFlag := decode_link_flags 0x7C\<rparr>) 76))) = Some ''b''
   \<and> commandLineArguments (data (fst (parse_string_data
         ((loaded None five_fields_buf)\<lparr>linkFlag := decode_link_flags 0x7C\<rparr>) 76))) = Some ''c''
   \<and> iconLocation (data (fst (parse_string_data
         ((loaded None five_fields_buf)\<lparr>linkFlag := decode_link_flags 0x7C\<rparr>) 76))) = Some ''d''
   \<and> snd (parse_string_data ((loaded None five_fields_buf)\<lparr>linkFlag := decode_link_flags 0x7C\<rparr>) 76) = 90
   \<and> 76 \<le> length (indata (loaded None five_fields_buf))
   \<and> unpack_I (py_slice (indata (loaded None five_fields_buf)) 0 4) = Some 76
   \<and> snd (parse (loaded None five_fields_buf)) = None"
  using string_section_order [of "(loaded None five_fields_buf)\<lparr>linkFlag := decode_link_flags 0x7C\<rparr>"
      76 five_fields_buf 76 1 "loaded None five_fields_buf"]
    five_fields_reads five_fields_state five_fields_header
  by (simp add: flags_7C)

text \<open>"Whenever reading one field fails, all later fields are left undecoded" fails at
  \<open>overlong_buf\<close>: the parse succeeds, the read of the description at byte 76 fails, and the
  relative path is decoded to \<open>abc\<close>.\<close>

theorem string_section_order_counterexample:
  "snd (parse (loaded None overlong_buf)) = None
   \<and> read_fails overlong_buf 76 1
   \<and> description (data (fst (parse (loaded None overlong_buf)))) = Some []
   \<and> relativePath (data (fst (parse (loaded None overlong_buf)))) = Some ''abc''"
proof -
  have v: "76 \<le> length (indata (loaded None overlong_buf))"
    "unpack_I (py_slice (indata (loaded None overlong_buf)) 0 4) = Some 76"
    "unpack_i (py_slice (indata (loaded None overlong_buf)) 20 24) = Some 0x0C"
    using overlong_buf_header by (simp_all add: loaded_def)
  have "data (fst (parse (loaded None overlong_buf)))
          = data (fst (parse_string_data ((loaded None overlong_buf)\<lparr>linkFlag := decode_link_flags 0x0C\<rparr>) 76))"
    by (rule data_parse_plain [OF v flags_0C(3,4)])
  then show ?thesis
    using parse_succeeds [OF v(1,2)] overlong_buf_reads overlong_buf_state
    by (simp add: string_section_description string_section_relativePath flags_0C)
qed

subsection \<open>C7: the walk of the extra blocks\<close>

text \<open>
  Claim C7, as the code has it. The walk ends for every buffer and every cursor, within
  \<open>len - 9 - index\<close> iterations of the loop (one, when that number is not positive). It makes
  a step only while \<open>index \<le> len - 10\<close>; it stops at once on a declared size below 4, so on
  a declared size of 0; it stops as well when the size or the signature cannot be unpacked;
  in every other case it moves the cursor by exactly the declared size, whatever the
  signature, and the cursor never moves backwards. At a cursor that is not negative both
  reads succeed, so the two failing reads belong to a negative cursor, which a negative
  \<open>LinkInfoSize\<close> produces.
\<close>

theorem extra_block_walk:
  "walk_fuel (Suc (nat (int (length d) - 9 - index))) d eb index
     = Some (walk_extra_blocks d eb index)
   \<and> (\<not> index \<le> int (length d) - 10 \<longrightarrow> walk_extra_blocks d eb index = (eb, index))
   \<and> (index \<le> int (length d) - 10 \<and> unpack_I (py_slice d index (index + 4)) = Some sz
        \<and> sz < 4 \<longrightarrow> walk_extra_blocks d eb index = (eb, index))
   \<and> (index \<le> int (length d) - 10 \<and> unpack_I (py_slice d index (index + 4)) = Some sz
        \<and> 4 \<le> sz \<and> unpack_I (py_slice d (index + 4) (index + 8)) = Some sg \<longrightarrow>
        walk_extra_blocks d eb index
          = walk_extra_blocks d (dispatch_block d eb (drop 2 (py_hex sg)) index sz) (index + sz))
   \<and> (index \<le> int (length d) - 10
        \<and> (unpack_I (py_slice d index (index + 4)) = None
            \<or> unpack_I (py_slice d index (index + 4)) = Some sz \<and> 4 \<le> sz
               \<and> unpack_I (py_slice d (index + 4) (index + 8)) = None) \<longrightarrow>
        walk_extra_blocks d eb index = (eb, index))
   \<and> (0 \<le> index \<and> index \<le> int (length d) - 10 \<longrightarrow>
        unpack_I (py_slice d index (index + 4)) \<noteq> None
        \<and> unpack_I (py_slice d (index + 4) (index + 8)) \<noteq> None)
   \<and> index \<le> snd (walk_extra_blocks d eb index)"
proof (intro conjI impI)
  show "walk_fuel (Suc (nat (int (length d) - 9 - index))) d eb index
     = Some (walk_extra_blocks d eb index)"
    by (rule walk_fuel_enough) simp
next
  assume "\<not> index \<le> int (length d) - 10"
  then show "walk_extra_blocks d eb index = (eb, index)" by (rule walk_stop)
next
  assume "index \<le> int (length d) - 10 \<and> unpack_I (py_slice d index (index + 4)) = Some sz
        \<and> sz < 4"
  then show "walk_extra_blocks d eb index = (eb, index)" by (simp add: walk_small_size)
next
  assume "index \<le> int (length d) - 10 \<and> unpack_I (py_slice d index (index + 4)) = Some sz
        \<and> 4 \<le> sz \<and> unpack_I (py_slice d (index + 4) (index + 8)) = Some sg"
  then show "walk_extra_blocks d eb index
          = walk_extra_blocks d (dispatch_block d eb (drop 2 (py_hex sg)) index sz) (index + sz)"
    using walk_advance [of index d sz sg eb] by simp
next
  assume "index \<le> int (length d) - 10
        \<and> (unpack_I (py_slice d index (index + 4)) = None
            \<or> unpack_I (py_slice d index (index + 4)) = Some sz \<and> 4 \<le> sz
               \<and> unpack_I (py_slice d (index + 4) (index + 8)) = None)"
  then show "walk_extra_blocks d eb index = (eb, index)"
    using walk_no_size [of index d eb] walk_no_signature [of index d sz eb] by auto
next
  assume a: "0 \<le> index \<and> index \<le> int (length d) - 10"
  then show "unpack_I (py_slice d index (index + 4)) \<noteq> None"
    using reads_inside(1) [of index d] by simp
  from a show "unpack_I (py_slice d (index + 4) (index + 8)) \<noteq> None"
    using reads_inside(2) [of index d] by simp
next
  show "index \<le> snd (walk_extra_blocks d eb index)" by (rule walk_monotone)
qed

text \<open>The theorem at \<open>blocks_buf\<close>, from cursor 0 (a block of size 12 is passed), from
  cursor 12 (the size 0 halts the walk) and from cursor 21 (fewer than ten bytes are left),
  and at \<open>negative_size_buf\<close> from cursor \<open>-6\<close>, where the read of the signature raises.\<close>

theorem extra_block_walk_witness:
  "0 \<le> int (length blocks_buf) - 10
   \<and> unpack_I (py_slice blocks_buf 0 (0 + 4)) = Some 12
   \<and> unpack_I (py_slice blocks_buf (0 + 4) (0 + 8)) = Some 0xA0000005
   \<and> 12 \<le> int (length blocks_buf) - 10
   \<and> unpack_I (py_slice blocks_buf 12 (12 + 4)) = Some 0
   \<and> walk_extra_blocks blocks_buf empty_blocks 12 = (empty_blocks, 12)
   \<and> walk_extra_blocks blocks_buf empty_blocks 0 = (empty_blocks, 12)
   \<and> \<not> 21 \<le> int (length blocks_buf) - 10
   \<and> walk_extra_blocks blocks_buf empty_blocks 21 = (empty_blocks, 21)
   \<and> - 6 \<le> int (length negative_size_buf) - 10
   \<and> unpack_I (py_slice negative_size_buf (- 6) (- 6 + 4)) = Some 9
   \<and> unpack_I (py_slice negative_size_buf (- 6 + 4) (- 6 + 8)) = None
   \<and> walk_extra_blocks negative_size_buf empty_blocks (- 6) = (empty_blocks, - 6)"
proof -
  note r = blocks_buf_reads
  note small = extra_block_walk [of blocks_buf 12 empty_blocks 0,
      THEN conjunct2, THEN conjunct2, THEN conjunct1]
  note advance = extra_block_walk [of blocks_buf 0 empty_blocks 12 "0xA0000005",
      THEN conjunct2, THEN conjunct2, THEN conjunct2, THEN conjunct1]
  note stop = extra_block_walk [of blocks_buf 21 empty_blocks,
      THEN conjunct2, THEN conjunct1]
  note caught = extra_block_walk [of negative_size_buf "- 6" empty_blocks 9,
      THEN conjunct2, THEN conjunct2, THEN conjunct2, THEN conjunct2, THEN conjunct1]
  have a: "walk_extra_blocks blocks_buf empty_blocks 12 = (empty_blocks, 12)"
    using small r by simp
  have "walk_extra_blocks blocks_buf empty_blocks 0
          = walk_extra_blocks blocks_buf
              (dispatch_block blocks_buf empty_blocks (drop 2 (py_hex 0xA0000005)) 0 12) (0 + 12)"
    using advance r by simp
  then have b: "walk_extra_blocks blocks_buf empty_blocks 0 = (empty_blocks, 12)"
    by (simp add: blocks_buf_dispatch a)
  have c: "walk_extra_blocks blocks_buf empty_blocks 21 = (empty_blocks, 21)"
    using stop blocks_buf_end by simp
  have d: "walk_extra_blocks negative_size_buf empty_blocks (- 6) = (empty_blocks, - 6)"
    using caught negative_size_reads by simp
  show ?thesis using a b c d r blocks_buf_end negative_size_reads by simp
qed

text \<open>"Otherwise advances the cursor by exactly the declared size" fails at
  \<open>negative_size_buf\<close>: the parse succeeds and enters the walk with cursor -6, the size read
  there is 9, the read of the signature raises, and the walk ends with the cursor still -6.\<close>

theorem extra_block_walk_counterexample:
  "snd (parse (loaded None negative_size_buf)) = None
   \<and> snd (walk_start ((loaded None negative_size_buf)\<lparr>linkFlag := decode_link_flags 0x02\<rparr>) 76) = - 6
   \<and> - 6 \<le> int (length negative_size_buf) - 10
   \<and> unpack_I (py_slice negative_size_buf (- 6) (- 6 + 4)) = Some 9
   \<and> walk_extra_blocks negative_size_buf empty_blocks (- 6) = (empty_blocks, - 6)"
proof -
  note r = negative_size_reads
  have "walk_extra_blocks negative_size_buf empty_blocks (- 6) = (empty_blocks, - 6)"
    using walk_no_signature [of "- 6" negative_size_buf 9 empty_blocks] r by simp
  moreover have "snd (parse (loaded None negative_size_buf)) = None"
    using parse_succeeds [of "loaded None negative_size_buf"] negative_size_header by simp
  ultimately show ?thesis using r negative_size_start by simp
qed

subsection \<open>C8: the target command\<close>



subsection \<open>C9: the two sub-shapes of the LinkInfo region\<close>

text \<open>
  Claim C9, as the code has it. The region chooses with \<open>if\<close>/\<open>elif\<close>: when it is decoded
  without an exception, the volume record is stored exactly when bit 0 of the LinkInfo flags
  word is set (also when bit 1 is set too), the network-share record exactly when bit 0 is
  clear and bit 1 is set, and neither when both bits are clear. So at most one of the two is
  ever populated, in the region and in the object any parse leaves, and not always one.
\<close>

theorem link_info_sub_shapes:
  "(read_link_info (indata st) index = Some li \<and> snd (link_info_body st index) \<noteq> None \<longrightarrow>
        (VolumeIDAndLocalBasePath (loc (fst (link_info_body st index))) \<noteq> None)
          = (LinkInfoFlags li AND 1 \<noteq> 0)
        \<and> (CommonNetworkRelativeLinkAndPathSuffix (loc (fst (link_info_body st index))) \<noteq> None)
          = (LinkInfoFlags li AND 1 = 0 \<and> LinkInfoFlags li AND 2 \<noteq> 0))
   \<and> (read_link_info (indata st) index = Some li \<longrightarrow>
        \<not> (VolumeIDAndLocalBasePath (loc (fst (link_info_body st index))) \<noteq> None
            \<and> CommonNetworkRelativeLinkAndPathSuffix (loc (fst (link_info_body st index))) \<noteq> None))
   \<and> \<not> (VolumeIDAndLocalBasePath (loc (fst (parse (loaded p d)))) \<noteq> None
          \<and> CommonNetworkRelativeLinkAndPathSuffix (loc (fst (parse (loaded p d)))) \<noteq> None)"
proof (intro conjI impI)
  assume a: "read_link_info (indata st) index = Some li \<and> snd (link_info_body st index) \<noteq> None"
  then show "(VolumeIDAndLocalBasePath (loc (fst (link_info_body st index))) \<noteq> None)
          = (LinkInfoFlags li AND 1 \<noteq> 0)"
    using link_info_body_shapes(3) [of st index li] by simp
  from a show "(CommonNetworkRelativeLinkAndPathSuffix (loc (fst (link_info_body st index))) \<noteq> None)
          = (LinkInfoFlags li AND 1 = 0 \<and> LinkInfoFlags li AND 2 \<noteq> 0)"
    using link_info_body_shapes(4) [of st index li] by simp
next
  assume a: "read_link_info (indata st) index = Some li"
  show "\<not> (VolumeIDAndLocalBasePath (loc (fst (link_info_body st index))) \<noteq> None
            \<and> CommonNetworkRelativeLinkAndPathSuffix (loc (fst (link_info_body st index))) \<noteq> None)"
    using link_info_body_shapes(6,7) [OF a] by (cases "LinkInfoFlags li AND 1 = 0") auto
next
  show "\<not> (VolumeIDAndLocalBasePath (loc (fst (parse (loaded p d)))) \<noteq> None
          \<and> CommonNetworkRelativeLinkAndPathSuffix (loc (fst (parse (loaded p d)))) \<noteq> None)"
    by (rule parse_at_most_one_sub_shape)
qed

text \<open>The theorem at \<open>linkinfo_both\<close>, whose flags word has both bits set: the volume record
  is stored and the network-share record is not.\<close>

theorem link_info_sub_shapes_witness:
  "read_link_info (indata (loaded None linkinfo_both)) 76
     = Some \<lparr>LinkInfoSize = 44, LinkInfoHeaderSize = 28, LinkInfoFlags = 3,
             VolumeIDOffset = 28, LocalBasePathOffset = 0, CommonNetworkRelativeLinkOffset = 28,
             CommonPathSuffixOffset = 0\<rparr>
   \<and> snd (link_info_body (loaded None linkinfo_both) 76) = Some 120
   \<and> VolumeIDAndLocalBasePath (loc (fst (link_info_body (loaded None linkinfo_both) 76))) \<noteq> None
   \<and> CommonNetworkRelativeLinkAndPathSuffix (loc (fst (link_info_body (loaded None linkinfo_both) 76)))
       = None"
proof -
  have r: "read_link_info (indata (loaded None linkinfo_both)) 76
     = Some \<lparr>LinkInfoSize = 44, LinkInfoHeaderSize = 28, LinkInfoFlags = 3,
             VolumeIDOffset = 28, LocalBasePathOffset = 0, CommonNetworkRelativeLinkOffset = 28,
             CommonPathSuffixOffset = 0\<rparr>"
    using linkinfo_both_read by (simp add: loaded_def)
  show ?thesis
    using link_info_sub_shapes [of "loaded None linkinfo_both" 76
        "\<lparr>LinkInfoSize = 44, LinkInfoHeaderSize = 28, LinkInfoFlags = 3,
             VolumeIDOffset = 28, LocalBasePathOffset = 0, CommonNetworkRelativeLinkOffset = 28,
             CommonPathSuffixOffset = 0\<rparr>"]
      r linkinfo_both_body
    by simp
qed

text \<open>"Exactly one is populated" fails at \<open>linkinfo_neither\<close>, whose flags word is zero: the
  region is decoded without an exception, the parse succeeds, and neither record is stored.\<close>

theorem link_info_sub_shapes_counterexample:
  "snd (link_info_body (loaded None linkinfo_neither) 76) = Some 104
   \<and> snd (parse (loaded None linkinfo_neither)) = None
   \<and> LinkInfo (loc (fst (parse (loaded None linkinfo_neither)))) \<noteq> None
   \<and> VolumeIDAndLocalBasePath (loc (fst (parse (loaded None linkinfo_neither)))) = None
   \<and> CommonNetworkRelativeLinkAndPathSuffix (loc (fst (parse (loaded None linkinfo_neither)))) = None"
proof -
  note h = linkinfo_neither_header
  have l: "loc (fst (parse (loaded None linkinfo_neither)))
             = loc (fst (link_info_body (loaded None linkinfo_neither) 76))"
    using loc_parse [of "loaded None linkinfo_neither" "0x02"] h by (simp add: flags_02)
  have p: "snd (parse (loaded None linkinfo_neither)) = None"
    using parse_succeeds [of "loaded None linkinfo_neither"] h by simp
  show ?thesis
    using linkinfo_neither_body by (simp add: l p)
qed

subsection \<open>C10: a length prefix that passes the end of the buffer\<close>



end
